theory Spec2Isabelle
  imports Complex_Main "HOL-Library.List_Lexorder" "HOL-Library.Product_Lexorder"
begin

section \<open>Python text\<close>

text \<open>
  A Python \<open>str\<close> is a sequence of Unicode code points; a code point is a natural number.
  \<open>cp\<close> reads an ASCII literal as such a sequence.
\<close>

type_synonym pystr = "nat list"

definition cp :: "string \<Rightarrow> pystr" where
  "cp s = map of_char s"

text \<open>
  The Unicode tables behind \<open>str.upper\<close>, \<open>str.lower\<close>, \<open>unicodedata.normalize('NFKD', _)\<close>
  and \<open>unicodedata.combining\<close> are not part of the repository: the functions below take them
  as a parameter. \<open>ascii_db\<close> is their restriction to ASCII text (letters change case, NFKD
  is the identity, no character is combining), which is all the concrete examples use.
\<close>

record unicode_db =
  py_upper :: "pystr \<Rightarrow> pystr"
  py_lower :: "pystr \<Rightarrow> pystr"
  nfkd :: "pystr \<Rightarrow> pystr"
  combining :: "nat \<Rightarrow> nat"

definition upper_ascii :: "nat \<Rightarrow> nat" where
  "upper_ascii c = (if 97 \<le> c \<and> c \<le> 122 then c - 32 else c)"

definition lower_ascii :: "nat \<Rightarrow> nat" where
  "lower_ascii c = (if 65 \<le> c \<and> c \<le> 90 then c + 32 else c)"

definition ascii_db :: unicode_db where
  "ascii_db = \<lparr> py_upper = map upper_ascii, py_lower = map lower_ascii,
                 nfkd = (\<lambda>s. s), combining = (\<lambda>c. 0) \<rparr>"


text \<open>The characters \<open>str.isspace\<close>, \<open>str.strip\<close>, \<open>str.split\<close> and the regex class \<open>\s\<close> treat as blank.\<close>

definition es_espacio :: "nat \<Rightarrow> bool" where
  "es_espacio c \<longleftrightarrow>
     (9 \<le> c \<and> c \<le> 13) \<or> (28 \<le> c \<and> c \<le> 32) \<or> c = 133 \<or> c = 160 \<or> c = 5760 \<or>
     (8192 \<le> c \<and> c \<le> 8202) \<or> c = 8232 \<or> c = 8233 \<or> c = 8239 \<or> c = 8287 \<or> c = 12288"

text \<open>\<open>s.strip()\<close>\<close>

definition py_strip :: "pystr \<Rightarrow> pystr" where
  "py_strip s = rev (dropWhile es_espacio (rev (dropWhile es_espacio s)))"

text \<open>\<open>s.split()\<close>: the maximal runs of non-blank characters; \<open>w\<close> is the run being read, reversed.\<close>

fun split_acc :: "pystr \<Rightarrow> pystr \<Rightarrow> pystr list" where
  "split_acc w [] = (if w = [] then [] else [rev w])"
| "split_acc w (c # s) =
     (if es_espacio c then (if w = [] then split_acc [] s else rev w # split_acc [] s)
      else split_acc (c # w) s)"

definition py_split :: "pystr \<Rightarrow> pystr list" where
  "py_split s = split_acc [] s"

text \<open>\<open>sub in s\<close> for two strings.\<close>

fun contiene :: "pystr \<Rightarrow> pystr \<Rightarrow> bool" where
  "contiene sub [] = (sub = [])"
| "contiene sub (c # s) = (take (length sub) (c # s) = sub \<or> contiene sub s)"

text \<open>\<open>sep.join(xs)\<close>\<close>

fun py_join :: "pystr \<Rightarrow> pystr list \<Rightarrow> pystr" where
  "py_join sep [] = []"
| "py_join sep [x] = x"
| "py_join sep (x # y # ys) = x @ sep @ py_join sep (y # ys)"

section \<open>Name normalisation\<close>

text \<open>
  The values \<open>_normalize_to_token_set\<close> can be handed: a missing value (\<open>NaN\<close>/\<open>None\<close>), a text,
  or (when it is applied to its own result) a frozenset of texts, given in iteration order.
\<close>

datatype pyval = NaN | Str pystr | FrozenSet "pystr list"

text \<open>\<open>str(x)\<close>. The \<open>repr\<close> of a set element is the text between single quotes, which is what
  Python prints for texts of letters and digits.\<close>

fun py_str :: "pyval \<Rightarrow> pystr" where
  "py_str NaN = cp ''nan''"
| "py_str (Str s) = s"
| "py_str (FrozenSet []) = cp ''frozenset()''"
| "py_str (FrozenSet xs) =
     cp ''frozenset({'' @ py_join (cp '', '') (map (\<lambda>x. [39] @ x @ [39]) xs) @ cp ''})''"

definition es_AZ09 :: "nat \<Rightarrow> bool" where
  "es_AZ09 c \<longleftrightarrow> (65 \<le> c \<and> c \<le> 90) \<or> (48 \<le> c \<and> c \<le> 57)"

text \<open>\<open>re.sub(r'[^A-Z0-9\s]', ' ', s)\<close>\<close>

definition re_sub_no_alnum :: "pystr \<Rightarrow> pystr" where
  "re_sub_no_alnum s = map (\<lambda>c. if es_AZ09 c \<or> es_espacio c then c else 32) s"

definition normalize_to_token_set :: "unicode_db \<Rightarrow> pyval \<Rightarrow> pystr set" where
  "normalize_to_token_set U text =
     (if text = NaN \<or> text = Str [] then {}
      else
        let s = py_strip (py_upper U (py_str text));
            s = nfkd U s;
            s = filter (\<lambda>ch. combining U ch = 0) s;
            s = re_sub_no_alnum s;
            tokens = filter (\<lambda>tok. tok \<noteq> []) (py_split s)
        in set tokens)"

section \<open>The household registry and the family resolver\<close>

text \<open>A row of \<open>familias_df\<close>: its \<open>C\'odigo\<close> and its cells by column name (\<open>None\<close>: empty cell).\<close>

record fila_familia =
  Codigo :: pystr
  celda :: "pystr \<Rightarrow> pystr option"

record familias =
  columns :: "pystr list"
  filas :: "fila_familia list"

definition NO_IDENTIFICADA :: pystr where
  "NO_IDENTIFICADA = cp ''No identificada''"

definition NO_ENCONTRADA :: pystr where
  "NO_ENCONTRADA = cp ''No encontrada''"

definition de_celda :: "pystr option \<Rightarrow> pyval" where
  "de_celda x = (case x of None \<Rightarrow> NaN | Some s \<Rightarrow> Str s)"

text \<open>The inner loop over the person columns of one row: \<open>True\<close> when it returns the row's code.\<close>

fun revisar_columnas :: "unicode_db \<Rightarrow> pystr set \<Rightarrow> fila_familia \<Rightarrow> pystr list \<Rightarrow> bool" where
  "revisar_columnas U nombre_buscar_tokens familia [] = False"
| "revisar_columnas U nombre_buscar_tokens familia (col # cols) =
     (case celda familia col of
        None \<Rightarrow> revisar_columnas U nombre_buscar_tokens familia cols
      | Some v \<Rightarrow>
          let valor_celda_tokens = normalize_to_token_set U (Str v) in
          if valor_celda_tokens = {} then revisar_columnas U nombre_buscar_tokens familia cols
          else if nombre_buscar_tokens = valor_celda_tokens \<or>
                  nombre_buscar_tokens \<subseteq> valor_celda_tokens \<or>
                  valor_celda_tokens \<subseteq> nombre_buscar_tokens
               then True
               else revisar_columnas U nombre_buscar_tokens familia cols)"

fun revisar_filas :: "unicode_db \<Rightarrow> pystr set \<Rightarrow> pystr list \<Rightarrow> fila_familia list \<Rightarrow> pystr" where
  "revisar_filas U toks cols [] = NO_ENCONTRADA"
| "revisar_filas U toks cols (familia # rest) =
     (if revisar_columnas U toks familia cols then Codigo familia
      else revisar_filas U toks cols rest)"

definition columnas_persona :: "unicode_db \<Rightarrow> familias \<Rightarrow> pystr list" where
  "columnas_persona U fam =
     sort (filter (\<lambda>col. contiene (cp ''persona'') (py_lower U col)) (columns fam))"

definition obtener_familia_por_persona :: "unicode_db \<Rightarrow> familias \<Rightarrow> pystr option \<Rightarrow> pystr" where
  "obtener_familia_por_persona U fam nombre_persona =
     (if nombre_persona = None \<or> nombre_persona = Some [] then NO_IDENTIFICADA
      else revisar_filas U (normalize_to_token_set U (de_celda nombre_persona))
             (columnas_persona U fam) (filas fam))"

section \<open>Notions used to state the properties\<close>

text \<open>The text the tokens are read from: upper-cased, stripped, decomposed, combining marks dropped.\<close>

definition plegado :: "unicode_db \<Rightarrow> pystr \<Rightarrow> pystr" where
  "plegado U s = filter (\<lambda>ch. combining U ch = 0) (nfkd U (py_strip (py_upper U s)))"

text \<open>The maximal runs of the characters A-Z and 0-9 of a text; \<open>w\<close> is the run being read, reversed.\<close>

fun runs_acc :: "pystr \<Rightarrow> pystr \<Rightarrow> pystr list" where
  "runs_acc w [] = (if w = [] then [] else [rev w])"
| "runs_acc w (c # s) =
     (if es_AZ09 c then runs_acc (c # w) s
      else if w = [] then runs_acc [] s else rev w # runs_acc [] s)"

definition palabras :: "pystr \<Rightarrow> pystr list" where
  "palabras s = runs_acc [] s"

text \<open>The comparison of the query's tokens with a slot's tokens.\<close>

definition casa :: "pystr set \<Rightarrow> pystr set \<Rightarrow> bool" where
  "casa q v \<longleftrightarrow> q = v \<or> q \<subseteq> v \<or> v \<subseteq> q"

text \<open>A registry row matches the query tokens \<open>q\<close>: some person column holds a slot whose token
  set is not empty and equals, contains or is contained in \<open>q\<close>.\<close>

definition coincide :: "unicode_db \<Rightarrow> familias \<Rightarrow> pystr set \<Rightarrow> fila_familia \<Rightarrow> bool" where
  "coincide U fam q f \<longleftrightarrow>
     (\<exists>col \<in> set (columns fam). contiene (cp ''persona'') (py_lower U col) \<and>
        (case celda f col of None \<Rightarrow> False
         | Some v \<Rightarrow> normalize_to_token_set U (Str v) \<noteq> {} \<and>
                     casa q (normalize_to_token_set U (Str v))))"

text \<open>The same without the guard on empty token sets, and the resolver it gives: the first row with a
  slot whose token set equals, contains or is contained in the query's.\<close>

definition coincide_spec :: "unicode_db \<Rightarrow> familias \<Rightarrow> pystr set \<Rightarrow> fila_familia \<Rightarrow> bool" where
  "coincide_spec U fam q f \<longleftrightarrow>
     (\<exists>col \<in> set (columns fam). contiene (cp ''persona'') (py_lower U col) \<and>
        (case celda f col of None \<Rightarrow> False
         | Some v \<Rightarrow> casa q (normalize_to_token_set U (Str v))))"

definition resolver_spec :: "unicode_db \<Rightarrow> familias \<Rightarrow> pystr option \<Rightarrow> pystr" where
  "resolver_spec U fam nombre =
     (if nombre = None \<or> nombre = Some [] then NO_IDENTIFICADA
      else case find (coincide_spec U fam (normalize_to_token_set U (de_celda nombre))) (filas fam) of
             None \<Rightarrow> NO_ENCONTRADA
           | Some f \<Rightarrow> Codigo f)"

text \<open>The Unicode tables restricted to ASCII, the letter \<open>U+00E9\<close>, its capital \<open>U+00C9\<close> and the
  combining acute accent \<open>U+0301\<close> (combining class 230).\<close>

definition demo_db :: unicode_db where
  "demo_db = \<lparr> py_upper = map (\<lambda>c. if c = 233 then 201 else upper_ascii c),
                py_lower = map (\<lambda>c. if c = 201 then 233 else lower_ascii c),
                nfkd = (\<lambda>s. concat (map (\<lambda>c. if c = 201 then [69, 769] else if c = 233 then [101, 769] else [c]) s)),
                combining = (\<lambda>c. if c = 769 then 230 else 0) \<rparr>"

text \<open>Two registries: household F1 holds "JUAN PEREZ"; and one whose first household holds only "--".\<close>

definition fam_ejemplo :: familias where
  "fam_ejemplo = \<lparr> columns = [cp ''Codigo'', cp ''Persona_2'', cp ''Persona_1''],
     filas = [\<lparr> Codigo = cp ''F0'', celda = (\<lambda>c. if c = cp ''Persona_1'' then Some (cp ''ANA GOMEZ'') else None) \<rparr>,
              \<lparr> Codigo = cp ''F1'', celda = (\<lambda>c. if c = cp ''Persona_2'' then Some (cp ''JUAN PEREZ'') else None) \<rparr>] \<rparr>"

definition fam_guiones :: familias where
  "fam_guiones = \<lparr> columns = [cp ''Codigo'', cp ''Persona_1''],
     filas = [\<lparr> Codigo = cp ''F1'', celda = (\<lambda>c. if c = cp ''Persona_1'' then Some (cp ''--'') else None) \<rparr>,
              \<lparr> Codigo = cp ''F2'', celda = (\<lambda>c. if c = cp ''Persona_1'' then Some (cp ''JUAN'') else None) \<rparr>] \<rparr>"

section \<open>The tables\<close>

text \<open>
  A timestamp (\<open>pd.Timestamp\<close>) is a number of nanoseconds; \<open>None\<close> is \<open>NaT\<close>. An amount is a
  \<open>float64\<close>, given by its value, a rational number; floats are equal and ordered as their
  values are. The arithmetic of floats rounds and is taken as a parameter (see \<open>float_db\<close>).
  A row of \<open>ventas_df\<close> (an invoice) and a row of \<open>banco_df\<close> (a bank credit, after the filter
  of \<open>_normalizar_columnas\<close>: amount present and positive, name present):
\<close>

record venta =
  v_Fecha :: "int option"
  v_Nombre_Cliente :: "pystr option"
  v_Monto :: "rat option"
  v_Factura :: "pystr option"
  v_Numero_Caja :: pystr

record operacion =
  b_Fecha :: "int option"
  b_Nombre :: pystr
  b_Monto :: rat

text \<open>
  A row of \<open>resultados\<close> (a Match Record) with the columns the passes read or the properties
  speak of; the columns that only copy texts of the bank row (\<open>Detalle_Banco\<close>,
  \<open>Comprobante_Banco\<close>, ...) are left out. A column a pass does not write is \<open>None\<close> (NaN).
\<close>

record match =
  Tipo_Match :: pystr
  m_Factura :: "pystr option"
  Fecha_Banco :: "int option"
  Nombre_Banco :: pystr
  Monto_Banco :: rat
  Familia :: "pystr option"
  Grupo_Familiar :: "pystr option"
  Monto_Factura :: "rat option"
  Cantidad_Facturas :: "nat option"

datatype error = NameError | KeyError | AttributeError | ReError

text \<open>
  The floating-point operations the passes use: \<open>float(np.sum(montos))\<close> on a list of amounts,
  \<open>float(subset['Monto'].sum())\<close> on a column, and the difference \<open>a - b\<close> of two floats;
  each returns the float64 its algorithm rounds to. \<open>float_exacto\<close> is the instance without
  rounding; it agrees with float64 where the exact results are themselves float64 values, as for
  the amounts of the examples. The literal \<open>0.01\<close> is the float64 nearest to it.
\<close>

record float_db =
  np_sum :: "rat list \<Rightarrow> rat"
  Series_sum :: "rat list \<Rightarrow> rat"
  resta :: "rat \<Rightarrow> rat \<Rightarrow> rat"

definition float_exacto :: float_db where
  "float_exacto = \<lparr> np_sum = sum_list, Series_sum = sum_list, resta = (\<lambda>a b. a - b) \<rparr>"

definition float_001 :: rat where
  "float_001 = 5764607523034235 / 576460752303423488"

text \<open>
  What pandas and \<open>re\<close> do that the repository does not fix: the text of a timestamp
  (\<open>str(ts)\<close>), the texts of a column of timestamps (\<open>col.astype(str)\<close>, which depends on the
  whole column), the regular-expression search of \<open>Series.str.contains(pat)\<close> (\<open>None\<close> when the
  pattern does not compile) and the order \<open>sort_values('Fecha')\<close> leaves among rows of equal date
  (its default sort is not stable). The type \<open>'f\<close> is that of the texts of timestamps.
  \<open>pandas_simple\<close> is one instance, for columns whose timestamps are all at midnight, as in
  the examples: \<open>str(ts)\<close> writes date and time and \<open>astype(str)\<close> writes the date only, so the
  two texts of a timestamp differ (they are told apart by a flag); the search is the plain
  substring search (what the regular expression does for a pattern of letters) and the sort is
  stable.
\<close>

record 'f pandas_db =
  str_fecha :: "int option \<Rightarrow> 'f"
  astype_str_fechas :: "int option list \<Rightarrow> 'f list"
  str_contains :: "pystr \<Rightarrow> (pystr \<Rightarrow> bool) option"
  sort_values_Fecha :: "(nat \<times> venta) list \<Rightarrow> (nat \<times> venta) list"

definition la_fecha :: "venta \<Rightarrow> int" where
  "la_fecha v = (case v_Fecha v of None \<Rightarrow> 0 | Some d \<Rightarrow> d)"

definition pandas_simple :: "(bool \<times> int option) pandas_db" where
  "pandas_simple = \<lparr> str_fecha = (\<lambda>d. (True, d)), astype_str_fechas = map (\<lambda>d. (False, d)),
      str_contains = (\<lambda>pat. Some (contiene pat)),
      sort_values_Fecha = sort_key (\<lambda>r. la_fecha (snd r)) \<rparr>"

text \<open>\<open>Timedelta.days\<close>: whole days, rounded down.\<close>

definition days :: "int \<Rightarrow> int" where
  "days delta = delta div 86400000000000"

definition dia :: "int \<Rightarrow> int" where
  "dia n = n * 86400000000000"

text \<open>\<open>str(x)\<close> and \<open>astype(str)\<close> of a cell that may be NaN.\<close>

definition str_celda :: "pystr option \<Rightarrow> pystr" where
  "str_celda x = (case x of None \<Rightarrow> cp ''nan'' | Some s \<Rightarrow> s)"

text \<open>\<open>s.split(',')\<close>; \<open>w\<close> is the piece being read, reversed.\<close>

fun split_coma_acc :: "pystr \<Rightarrow> pystr \<Rightarrow> pystr list" where
  "split_coma_acc w [] = [rev w]"
| "split_coma_acc w (c # s) = (if c = 44 then rev w # split_coma_acc [] s else split_coma_acc (c # w) s)"

definition split_coma :: "pystr \<Rightarrow> pystr list" where
  "split_coma s = split_coma_acc [] s"

text \<open>\<open>dropna(subset=['Fecha', 'Nombre_Cliente', 'Monto'])\<close>\<close>

definition completa :: "venta \<Rightarrow> bool" where
  "completa v \<longleftrightarrow> v_Fecha v \<noteq> None \<and> v_Nombre_Cliente v \<noteq> None \<and> v_Monto v \<noteq> None"

text \<open>
  The identity key of a bank operation as passes 2 and 4 build it:
  \<open>(pd.to_datetime(fecha), str(nombre).upper().strip(), float(monto))\<close>.
\<close>

type_synonym op_key = "int option \<times> pystr \<times> rat"

definition clave_op :: "unicode_db \<Rightarrow> int option \<Rightarrow> pystr \<Rightarrow> rat \<Rightarrow> op_key" where
  "clave_op U fecha nombre monto = (fecha, py_strip (py_upper U nombre), monto)"

definition clave_banco :: "unicode_db \<Rightarrow> operacion \<Rightarrow> op_key" where
  "clave_banco U b = clave_op U (b_Fecha b) (b_Nombre b) (b_Monto b)"

definition clave_match :: "unicode_db \<Rightarrow> match \<Rightarrow> op_key" where
  "clave_match U r = clave_op U (Fecha_Banco r) (Nombre_Banco r) (Monto_Banco r)"

text \<open>The set \<open>matched_ops\<close> (and \<open>ops_matcheadas\<close>) built from the rows of \<open>resultados\<close>.\<close>

definition claves_resultados :: "unicode_db \<Rightarrow> match list \<Rightarrow> op_key set" where
  "claves_resultados U resultados = set (map (clave_match U) resultados)"

section \<open>Pass 1: \<open>matcheo_exacto\<close>\<close>

definition coincide_exacto :: "unicode_db \<Rightarrow> venta \<Rightarrow> operacion \<Rightarrow> bool" where
  "coincide_exacto U v b \<longleftrightarrow>
     b_Fecha b \<noteq> None \<and> b_Fecha b = v_Fecha v \<and>
     py_upper U (b_Nombre b) = py_upper U (str_celda (v_Nombre_Cliente v)) \<and>
     Some (b_Monto b) = v_Monto v"

definition registro_exacto :: "unicode_db \<Rightarrow> familias \<Rightarrow> venta \<Rightarrow> operacion \<Rightarrow> match" where
  "registro_exacto U fam v b =
     \<lparr> Tipo_Match = cp ''EXACTO'', m_Factura = v_Factura v,
       Fecha_Banco = b_Fecha b, Nombre_Banco = b_Nombre b, Monto_Banco = b_Monto b,
       Familia = Some (obtener_familia_por_persona U fam (v_Nombre_Cliente v)),
       Grupo_Familiar = None, Monto_Factura = v_Monto v, Cantidad_Facturas = None \<rparr>"

text \<open>The loop over the invoices; for each one, a record for every bank row the mask selects.\<close>

fun matcheo_exacto_ventas :: "unicode_db \<Rightarrow> familias \<Rightarrow> operacion list \<Rightarrow> venta list \<Rightarrow> match list" where
  "matcheo_exacto_ventas U fam banco [] = []"
| "matcheo_exacto_ventas U fam banco (v # ventas) =
     (if \<not> completa v then matcheo_exacto_ventas U fam banco ventas
      else map (registro_exacto U fam v) (filter (coincide_exacto U v) banco)
           @ matcheo_exacto_ventas U fam banco ventas)"

definition matcheo_exacto :: "unicode_db \<Rightarrow> familias \<Rightarrow> venta list \<Rightarrow> operacion list \<Rightarrow> match list" where
  "matcheo_exacto U fam ventas banco = matcheo_exacto_ventas U fam banco ventas"

section \<open>Pass 2: \<open>matcheo_multifacturas_misma_familia_dia_caja\<close>\<close>

text \<open>The invoice numbers a row of \<open>resultados\<close> names: the pieces of its \<open>Factura\<close> text between
  commas, stripped, the empty ones dropped.\<close>

definition facturas_de_match :: "match \<Rightarrow> pystr list" where
  "facturas_de_match r =
     (case m_Factura r of None \<Rightarrow> []
      | Some val \<Rightarrow> filter (\<lambda>x. x \<noteq> []) (map py_strip (split_coma val)))"

definition facturas_matcheadas :: "match list \<Rightarrow> pystr set" where
  "facturas_matcheadas resultados = set (concat (map facturas_de_match resultados))"

definition codigo_familia :: "unicode_db \<Rightarrow> familias \<Rightarrow> venta \<Rightarrow> pystr" where
  "codigo_familia U fam v = obtener_familia_por_persona U fam (v_Nombre_Cliente v)"

definition monto_de :: "venta \<Rightarrow> rat" where
  "monto_de v = (case v_Monto v of None \<Rightarrow> 0 | Some m \<Rightarrow> m)"

text \<open>\<open>ventas_validas\<close>: not matched before, complete, family identified.\<close>

definition ventas_validas_2 :: "unicode_db \<Rightarrow> familias \<Rightarrow> match list \<Rightarrow> venta list \<Rightarrow> venta list" where
  "ventas_validas_2 U fam resultados ventas =
     filter (\<lambda>v. codigo_familia U fam v \<noteq> NO_ENCONTRADA \<and> codigo_familia U fam v \<noteq> NO_IDENTIFICADA)
       (filter (\<lambda>v. str_celda (v_Factura v) \<notin> facturas_matcheadas resultados \<and> completa v) ventas)"

definition banco_disponible :: "unicode_db \<Rightarrow> match list \<Rightarrow> operacion list \<Rightarrow> operacion list" where
  "banco_disponible U resultados banco =
     filter (\<lambda>b. clave_banco U b \<notin> claves_resultados U resultados) banco"

text \<open>\<open>groupby(['Fecha', 'Numero_Caja', 'Codigo_Familia'])\<close>: the groups in the order of their sorted
  keys, each with its rows in table order.\<close>

type_synonym clave_grupo = "int \<times> pystr \<times> pystr"

definition clave_de_grupo :: "unicode_db \<Rightarrow> familias \<Rightarrow> venta \<Rightarrow> clave_grupo" where
  "clave_de_grupo U fam v = (la_fecha v, v_Numero_Caja v, codigo_familia U fam v)"

definition groupby :: "unicode_db \<Rightarrow> familias \<Rightarrow> venta list \<Rightarrow> (clave_grupo \<times> venta list) list" where
  "groupby U fam validas =
     map (\<lambda>k. (k, filter (\<lambda>v. clave_de_grupo U fam v = k) validas))
       (sort (remdups (map (clave_de_grupo U fam) validas)))"

definition mask_fecha_monto :: "int \<Rightarrow> rat \<Rightarrow> operacion \<Rightarrow> bool" where
  "mask_fecha_monto fecha total_monto b \<longleftrightarrow> b_Fecha b = Some fecha \<and> b_Monto b = total_monto"

text \<open>\<open>familia_val\<close>: the codes of the group's invoices that are not empty, sorted and joined by ";".\<close>

definition familia_val :: "unicode_db \<Rightarrow> familias \<Rightarrow> venta list \<Rightarrow> pystr" where
  "familia_val U fam grupo =
     (let familias_set = remdups (filter (\<lambda>f. f \<noteq> []) (map (codigo_familia U fam) grupo))
      in if familias_set \<noteq> [] then py_join [59] (sort familias_set) else NO_ENCONTRADA)"

definition registro_multi :: "float_db \<Rightarrow> unicode_db \<Rightarrow> familias \<Rightarrow> venta list \<Rightarrow> operacion \<Rightarrow> match" where
  "registro_multi F U fam grupo b =
     \<lparr> Tipo_Match = cp ''MULTI_FACTURAS'',
       m_Factura = Some (py_join [44] (map (\<lambda>v. str_celda (v_Factura v)) grupo)),
       Fecha_Banco = b_Fecha b, Nombre_Banco = b_Nombre b, Monto_Banco = b_Monto b,
       Familia = Some (familia_val U fam grupo), Grupo_Familiar = None,
       Monto_Factura = Some (np_sum F (map monto_de grupo)),
       Cantidad_Facturas = Some (length grupo) \<rparr>"

text \<open>The loop over \<open>coincidencias\<close>; the state is \<open>(matched_ops, matches_nuevos)\<close>.\<close>

fun registrar_coincidencias ::
  "float_db \<Rightarrow> unicode_db \<Rightarrow> familias \<Rightarrow> venta list \<Rightarrow> operacion list \<Rightarrow> op_key set \<times> match list
     \<Rightarrow> op_key set \<times> match list" where
  "registrar_coincidencias F U fam grupo [] st = st"
| "registrar_coincidencias F U fam grupo (b # coincidencias) (matched_ops, matches_nuevos) =
     (if clave_banco U b \<in> matched_ops
      then registrar_coincidencias F U fam grupo coincidencias (matched_ops, matches_nuevos)
      else registrar_coincidencias F U fam grupo coincidencias
             (insert (clave_banco U b) matched_ops, matches_nuevos @ [registro_multi F U fam grupo b]))"

text \<open>\<open>df[mask]\<close> for a boolean mask.\<close>

definition seleccionar :: "bool list \<Rightarrow> 'a list \<Rightarrow> 'a list" where
  "seleccionar msk rows = map snd (filter fst (zip msk rows))"

text \<open>
  The loop over the groups. The local variable \<open>mask\<close> (here \<open>msk\<close>) is \<open>None\<close> until it is first assigned; it is
  assigned only when some available operation has the group's date and total, and it is read for
  every group of two or more invoices: reading it unassigned raises \<open>UnboundLocalError\<close>, a
  \<open>NameError\<close>. (The \<open>except\<close> branch computes the same mask from the same three conditions; the
  comparisons of the typed tables never raise.)
\<close>

fun procesar_grupos ::
  "float_db \<Rightarrow> unicode_db \<Rightarrow> familias \<Rightarrow> operacion list \<Rightarrow> (clave_grupo \<times> venta list) list
     \<Rightarrow> bool list option \<times> op_key set \<times> match list
     \<Rightarrow> error + (bool list option \<times> op_key set \<times> match list)" where
  "procesar_grupos F U fam disponible [] st = Inr st"
| "procesar_grupos F U fam disponible (((fecha, numero_caja, codigo), grupo) # grupos) (msk, matched_ops, matches_nuevos) =
     (if length grupo < 2
      then procesar_grupos F U fam disponible grupos (msk, matched_ops, matches_nuevos)
      else
        let total_monto = np_sum F (map monto_de grupo);
            candidatos_banco = filter (mask_fecha_monto fecha total_monto) disponible;
            msk' = (if length candidatos_banco > 0
                     then Some (map (\<lambda>b. mask_fecha_monto fecha total_monto b \<and>
                                  (mask_fecha_monto fecha total_monto b \<and>
                                   obtener_familia_por_persona U fam (Some (b_Nombre b)) = codigo))
                                disponible)
                     else msk)
        in case msk' of
             None \<Rightarrow> Inl NameError
           | Some m \<Rightarrow>
               procesar_grupos F U fam disponible grupos
                 (case registrar_coincidencias F U fam grupo (seleccionar m disponible)
                         (matched_ops, matches_nuevos) of
                    (matched_ops', matches_nuevos') \<Rightarrow> (msk', matched_ops', matches_nuevos')))"

definition matcheo_multifacturas_misma_familia_dia_caja ::
  "float_db \<Rightarrow> unicode_db \<Rightarrow> familias \<Rightarrow> venta list \<Rightarrow> operacion list \<Rightarrow> match list \<Rightarrow> error + match list" where
  "matcheo_multifacturas_misma_familia_dia_caja F U fam ventas banco resultados =
     (case procesar_grupos F U fam (banco_disponible U resultados banco)
             (groupby U fam (ventas_validas_2 U fam resultados ventas))
             (None, claves_resultados U resultados, []) of
        Inl e \<Rightarrow> Inl e
      | Inr (msk, matched_ops, matches_nuevos) \<Rightarrow> Inr (resultados @ matches_nuevos))"

section \<open>Pass 3: \<open>matcheo_por_grupo_familiar\<close>\<close>

text \<open>\<open>_validar_pertenencia_familia\<close>: the code of the first row with a column \<open>Persona_*\<close> whose
  text contains the name (both stripped and upper-cased).\<close>

definition columnas_Persona :: "familias \<Rightarrow> pystr list" where
  "columnas_Persona fam = filter (\<lambda>c. take 8 c = cp ''Persona_'') (columns fam)"

fun validar_columnas :: "unicode_db \<Rightarrow> pystr \<Rightarrow> fila_familia \<Rightarrow> pystr list \<Rightarrow> bool" where
  "validar_columnas U nombre_persona row [] = False"
| "validar_columnas U nombre_persona row (col # cols) =
     (case celda row col of
        None \<Rightarrow> validar_columnas U nombre_persona row cols
      | Some v \<Rightarrow>
          if contiene (py_upper U (py_strip nombre_persona)) (py_upper U (py_strip v)) then True
          else validar_columnas U nombre_persona row cols)"

fun validar_filas :: "unicode_db \<Rightarrow> pystr \<Rightarrow> pystr list \<Rightarrow> fila_familia list \<Rightarrow> pystr option" where
  "validar_filas U nombre_persona cols [] = None"
| "validar_filas U nombre_persona cols (row # rows) =
     (if validar_columnas U nombre_persona row cols then Some (Codigo row)
      else validar_filas U nombre_persona cols rows)"

definition validar_pertenencia_familia :: "unicode_db \<Rightarrow> familias \<Rightarrow> pystr option \<Rightarrow> pystr option" where
  "validar_pertenencia_familia U fam nombre_persona =
     (case nombre_persona of
        None \<Rightarrow> None
      | Some n \<Rightarrow> if n = [] then None else validar_filas U n (columnas_Persona fam) (filas fam))"

text \<open>The truth value of a family code: \<open>None\<close> and the empty text are false.\<close>

definition verdadero :: "pystr option \<Rightarrow> bool" where
  "verdadero x \<longleftrightarrow> x \<noteq> None \<and> x \<noteq> Some []"

text \<open>The amount and date test of an invoice against an operation; a missing amount or date
  makes the comparison false.\<close>

definition cumple_monto_fecha :: "float_db \<Rightarrow> operacion \<Rightarrow> venta \<Rightarrow> bool" where
  "cumple_monto_fecha F op_banco factura \<longleftrightarrow>
     (case v_Monto factura of None \<Rightarrow> False
      | Some m \<Rightarrow> \<bar>resta F (b_Monto op_banco) m\<bar> < float_001) \<and>
     (case b_Fecha op_banco of None \<Rightarrow> False
      | Some fecha_banco \<Rightarrow>
          (case v_Fecha factura of None \<Rightarrow> False
           | Some fecha_factura \<Rightarrow> \<bar>days (fecha_banco - fecha_factura)\<bar> \<le> 1))"

definition candidata_3 :: "float_db \<Rightarrow> unicode_db \<Rightarrow> familias \<Rightarrow> pystr \<Rightarrow> operacion \<Rightarrow> venta \<Rightarrow> bool" where
  "candidata_3 F U fam familia_pagador op_banco factura \<longleftrightarrow>
     (let familia_cliente = validar_pertenencia_familia U fam (v_Nombre_Cliente factura)
      in verdadero familia_cliente \<and> familia_cliente = Some familia_pagador \<and>
         cumple_monto_fecha F op_banco factura)"

text \<open>The loop over the invoices, left at the first one that passes (\<open>break\<close>).\<close>

fun buscar_factura :: "float_db \<Rightarrow> unicode_db \<Rightarrow> familias \<Rightarrow> pystr \<Rightarrow> operacion \<Rightarrow> venta list \<Rightarrow> venta option" where
  "buscar_factura F U fam familia_pagador op_banco [] = None"
| "buscar_factura F U fam familia_pagador op_banco (factura # ventas) =
     (if candidata_3 F U fam familia_pagador op_banco factura then Some factura
      else buscar_factura F U fam familia_pagador op_banco ventas)"

definition registro_familiar :: "operacion \<Rightarrow> venta \<Rightarrow> pystr \<Rightarrow> match" where
  "registro_familiar op_banco factura familia_pagador =
     \<lparr> Tipo_Match = cp ''Grupo Familiar'', m_Factura = v_Factura factura,
       Fecha_Banco = b_Fecha op_banco, Nombre_Banco = b_Nombre op_banco, Monto_Banco = b_Monto op_banco,
       Familia = None, Grupo_Familiar = Some familia_pagador,
       Monto_Factura = v_Monto factura, Cantidad_Facturas = None \<rparr>"

text \<open>The key of pass 3: \<open>(str(fecha), str(nombre), float(monto))\<close>, the name as it is written.\<close>

type_synonym 'f op_key_3 = "'f \<times> pystr \<times> rat"

definition clave_3 :: "'f pandas_db \<Rightarrow> operacion \<Rightarrow> 'f op_key_3" where
  "clave_3 P op_banco = (str_fecha P (b_Fecha op_banco), b_Nombre op_banco, b_Monto op_banco)"

definition claves_resultados_3 :: "'f pandas_db \<Rightarrow> match list \<Rightarrow> 'f op_key_3 set" where
  "claves_resultados_3 P resultados =
     (if length resultados > 0
      then set (zip (astype_str_fechas P (map Fecha_Banco resultados))
                    (zip (map Nombre_Banco resultados) (map Monto_Banco resultados)))
      else {})"

text \<open>The loop over the bank operations; the state is \<open>(matched_ops, matches_nuevos)\<close>.\<close>

fun procesar_operaciones_3 ::
  "float_db \<Rightarrow> 'f pandas_db \<Rightarrow> unicode_db \<Rightarrow> familias \<Rightarrow> venta list \<Rightarrow> operacion list
     \<Rightarrow> 'f op_key_3 set \<times> match list \<Rightarrow> 'f op_key_3 set \<times> match list" where
  "procesar_operaciones_3 F P U fam ventas [] st = st"
| "procesar_operaciones_3 F P U fam ventas (op_banco # ops) (matched_ops, matches_nuevos) =
     (if clave_3 P op_banco \<in> matched_ops
      then procesar_operaciones_3 F P U fam ventas ops (matched_ops, matches_nuevos)
      else
        case validar_pertenencia_familia U fam (Some (b_Nombre op_banco)) of
          None \<Rightarrow> procesar_operaciones_3 F P U fam ventas ops (matched_ops, matches_nuevos)
        | Some familia_pagador \<Rightarrow>
            if familia_pagador = []
            then procesar_operaciones_3 F P U fam ventas ops (matched_ops, matches_nuevos)
            else
              (case buscar_factura F U fam familia_pagador op_banco ventas of
                 None \<Rightarrow> procesar_operaciones_3 F P U fam ventas ops (matched_ops, matches_nuevos)
               | Some factura \<Rightarrow>
                   procesar_operaciones_3 F P U fam ventas ops
                     (insert (clave_3 P op_banco) matched_ops,
                      matches_nuevos @ [registro_familiar op_banco factura familia_pagador])))"

definition matcheo_por_grupo_familiar ::
  "float_db \<Rightarrow> 'f pandas_db \<Rightarrow> unicode_db \<Rightarrow> familias \<Rightarrow> venta list \<Rightarrow> operacion list \<Rightarrow> match list \<Rightarrow> match list" where
  "matcheo_por_grupo_familiar F P U fam ventas banco resultados =
     resultados @ snd (procesar_operaciones_3 F P U fam ventas banco (claves_resultados_3 P resultados, []))"

section \<open>Pass 4: \<open>matcheo_multifacturas_misma_familia_mismo_dia_caja\<close>\<close>

definition TOL :: rat where
  "TOL = float_001"

text \<open>\<open>extraer_apellido\<close>: the last word of the upper-cased name, or the empty text.\<close>

definition extraer_apellido :: "unicode_db \<Rightarrow> pystr \<Rightarrow> pystr" where
  "extraer_apellido U nombre =
     (let partes = py_split (py_strip (py_upper U nombre))
      in if length partes > 0 then last partes else [])"

text \<open>\<open>itertools.combinations(xs, k)\<close>: the sublists of length \<open>k\<close>, in lexicographic order of
  their positions.\<close>

fun combinations :: "'a list \<Rightarrow> nat \<Rightarrow> 'a list list" where
  "combinations xs 0 = [[]]"
| "combinations [] (Suc k) = []"
| "combinations (x # xs) (Suc k) = map ((#) x) (combinations xs k) @ combinations xs (Suc k)"

text \<open>\<open>ventas_validas\<close>: the complete rows, each with its index label (its position in \<open>ventas_df\<close>).\<close>

definition ventas_validas_4 :: "venta list \<Rightarrow> (nat \<times> venta) list" where
  "ventas_validas_4 ventas = filter (\<lambda>r. completa (snd r)) (zip [0..<length ventas] ventas)"

text \<open>
  The candidate invoices of a bank operation; \<open>usado\<close> is the set of the labels whose flag
  \<open>_usado_en_match\<close> is set. When the family is not identified and the name has no word, the code
  calls \<open>.strip()\<close> on a Series, which raises \<open>AttributeError\<close>.
\<close>

definition seleccionar_candidatos ::
  "'f pandas_db \<Rightarrow> unicode_db \<Rightarrow> familias \<Rightarrow> (nat \<times> venta) list \<Rightarrow> nat set \<Rightarrow> operacion
     \<Rightarrow> error + (nat \<times> venta) list" where
  "seleccionar_candidatos P U fam validas usado banco =
     (let codigo_familia_banco = obtener_familia_por_persona U fam (Some (b_Nombre banco))
      in if codigo_familia_banco \<noteq> NO_ENCONTRADA \<and> codigo_familia_banco \<noteq> NO_IDENTIFICADA \<and>
            codigo_familia_banco \<noteq> []
         then Inr (filter (\<lambda>r. codigo_familia U fam (snd r) = codigo_familia_banco \<and> fst r \<notin> usado) validas)
         else
           let clave = extraer_apellido U (b_Nombre banco)
           in if clave = [] then Inl AttributeError
              else case str_contains P clave of
                     None \<Rightarrow> Inl ReError
                   | Some busca \<Rightarrow>
                       Inr (filter (\<lambda>r. busca (py_upper U (str_celda (v_Nombre_Cliente (snd r)))) \<and>
                                        fst r \<notin> usado) validas))"

text \<open>\<open>diff_dias\<close> and the key of the second sort: \<open>diff_dias\<close> ascending (NaN last), then \<open>Monto\<close>
  descending; the sort is stable.\<close>

definition diff_dias :: "int option \<Rightarrow> venta \<Rightarrow> int option" where
  "diff_dias fecha_b v =
     (case fecha_b of None \<Rightarrow> None
      | Some fb \<Rightarrow> (case v_Fecha v of None \<Rightarrow> None | Some f \<Rightarrow> Some \<bar>days (f - fb)\<bar>))"

definition orden_candidatos :: "int option \<Rightarrow> nat \<times> venta \<Rightarrow> (nat \<times> int) \<times> rat" where
  "orden_candidatos fecha_b r =
     ((case diff_dias fecha_b (snd r) of None \<Rightarrow> (1, 0) | Some d \<Rightarrow> (0, d)), - monto_de (snd r))"

definition MAX_CANDIDATOS :: nat where
  "MAX_CANDIDATOS = 15"

definition candidatos_restringidos :: "'f pandas_db \<Rightarrow> int option \<Rightarrow> (nat \<times> venta) list \<Rightarrow> venta list" where
  "candidatos_restringidos P fecha_b candidatos =
     map snd (take MAX_CANDIDATOS (sort_key (orden_candidatos fecha_b) (sort_values_Fecha P candidatos)))"

definition suma_subset :: "float_db \<Rightarrow> venta list \<Rightarrow> nat list \<Rightarrow> rat" where
  "suma_subset F pool idxs = Series_sum F (map (\<lambda>i. monto_de (pool ! i)) idxs)"

text \<open>The inner loop over the combinations of one size and the outer loop over the sizes; both
  stop at the first combination accepted.\<close>

fun buscar_combo :: "float_db \<Rightarrow> rat \<Rightarrow> venta list \<Rightarrow> nat list list \<Rightarrow> nat list option" where
  "buscar_combo F monto_banco pool [] = None"
| "buscar_combo F monto_banco pool (combo # combos) =
     (if \<bar>resta F (suma_subset F pool combo) monto_banco\<bar> \<le> TOL then Some combo
      else buscar_combo F monto_banco pool combos)"

fun buscar_k :: "float_db \<Rightarrow> rat \<Rightarrow> venta list \<Rightarrow> nat list \<Rightarrow> nat list option" where
  "buscar_k F monto_banco pool [] = None"
| "buscar_k F monto_banco pool (k # ks) =
     (case buscar_combo F monto_banco pool (combinations [0..<length pool] k) of
        Some combo \<Rightarrow> Some combo
      | None \<Rightarrow> buscar_k F monto_banco pool ks)"

definition registro_familia_banco :: "float_db \<Rightarrow> unicode_db \<Rightarrow> familias \<Rightarrow> operacion \<Rightarrow> venta list \<Rightarrow> match" where
  "registro_familia_banco F U fam banco facturas_subset =
     \<lparr> Tipo_Match = cp ''MULTI_FACTURAS_FAMILIA_BANCO_PRIMERO'',
       m_Factura = Some (py_join [44] (map (\<lambda>v. str_celda (v_Factura v)) facturas_subset)),
       Fecha_Banco = b_Fecha banco, Nombre_Banco = b_Nombre banco, Monto_Banco = b_Monto banco,
       Familia = Some (obtener_familia_por_persona U fam (Some (b_Nombre banco))),
       Grupo_Familiar = None,
       Monto_Factura = Some (Series_sum F (map monto_de facturas_subset)),
       Cantidad_Facturas = Some (length facturas_subset) \<rparr>"

text \<open>
  The loop over the bank operations; the state is \<open>(usado, matched_ops, matches_nuevos)\<close>.
  On a match the code sets the flag with \<open>ventas_validas.loc[subset.index, '_usado_en_match']\<close>,
  where \<open>subset.index\<close> holds the positions of the combination in the pool (the pool's index was
  reset): the flag is set on the rows of \<open>ventas_validas\<close> that carry these numbers as labels,
  and \<open>.loc\<close> raises \<open>KeyError\<close> when one of them is not a label.
\<close>

fun procesar_operaciones_4 ::
  "float_db \<Rightarrow> 'f pandas_db \<Rightarrow> unicode_db \<Rightarrow> familias \<Rightarrow> (nat \<times> venta) list \<Rightarrow> operacion list
     \<Rightarrow> nat set \<times> op_key set \<times> match list \<Rightarrow> error + (nat set \<times> op_key set \<times> match list)" where
  "procesar_operaciones_4 F P U fam validas [] st = Inr st"
| "procesar_operaciones_4 F P U fam validas (banco # ops) (usado, matched_ops, matches_nuevos) =
     (if clave_banco U banco \<in> matched_ops
      then procesar_operaciones_4 F P U fam validas ops (usado, matched_ops, matches_nuevos)
      else
        case seleccionar_candidatos P U fam validas usado banco of
          Inl e \<Rightarrow> Inl e
        | Inr candidatos \<Rightarrow>
            if length candidatos < 2
            then procesar_operaciones_4 F P U fam validas ops (usado, matched_ops, matches_nuevos)
            else
              let pool = candidatos_restringidos P (b_Fecha banco) candidatos;
                  max_k = min 8 (length pool)
              in case buscar_k F (b_Monto banco) pool [2..<max_k + 1] of
                   None \<Rightarrow> procesar_operaciones_4 F P U fam validas ops (usado, matched_ops, matches_nuevos)
                 | Some idxs \<Rightarrow>
                     if set idxs \<subseteq> set (map fst validas)
                     then procesar_operaciones_4 F P U fam validas ops
                            (usado \<union> set idxs, insert (clave_banco U banco) matched_ops,
                             matches_nuevos @ [registro_familia_banco F U fam banco (map ((!) pool) idxs)])
                     else Inl KeyError)"

definition matcheo_multifacturas_misma_familia_mismo_dia_caja ::
  "float_db \<Rightarrow> 'f pandas_db \<Rightarrow> unicode_db \<Rightarrow> familias \<Rightarrow> venta list \<Rightarrow> operacion list \<Rightarrow> match list
     \<Rightarrow> error + match list" where
  "matcheo_multifacturas_misma_familia_mismo_dia_caja F P U fam ventas banco resultados =
     (case procesar_operaciones_4 F P U fam (ventas_validas_4 ventas) banco
             ({}, claves_resultados U resultados, []) of
        Inl e \<Rightarrow> Inl e
      | Inr (usado, matched_ops, matches_nuevos) \<Rightarrow> Inr (resultados @ matches_nuevos))"

section \<open>The four passes in order\<close>

definition cuatro_pasadas ::
  "float_db \<Rightarrow> 'f pandas_db \<Rightarrow> unicode_db \<Rightarrow> familias \<Rightarrow> venta list \<Rightarrow> operacion list \<Rightarrow> error + match list" where
  "cuatro_pasadas F P U fam ventas banco =
     (case matcheo_multifacturas_misma_familia_dia_caja F U fam ventas banco
             (matcheo_exacto U fam ventas banco) of
        Inl e \<Rightarrow> Inl e
      | Inr resultados \<Rightarrow>
          matcheo_multifacturas_misma_familia_mismo_dia_caja F P U fam ventas banco
            (matcheo_por_grupo_familiar F P U fam ventas banco resultados))"

section \<open>Example tables\<close>

text \<open>Invoices of JUAN PEREZ (household F1 of \<open>fam_ejemplo\<close>) and of ANA GOMEZ (household F0), all
  of day 5 and till 010, and bank credits.\<close>

definition factura :: "string \<Rightarrow> string \<Rightarrow> rat \<Rightarrow> venta" where
  "factura numero cliente monto =
     \<lparr> v_Fecha = Some (dia 5), v_Nombre_Cliente = Some (cp cliente), v_Monto = Some monto,
       v_Factura = Some (cp numero), v_Numero_Caja = cp ''010'' \<rparr>"

definition credito :: "int \<Rightarrow> string \<Rightarrow> rat \<Rightarrow> operacion" where
  "credito d nombre monto = \<lparr> b_Fecha = Some (dia d), b_Nombre = cp nombre, b_Monto = monto \<rparr>"

definition factura_de_dia :: "int \<Rightarrow> string \<Rightarrow> string \<Rightarrow> rat \<Rightarrow> venta" where
  "factura_de_dia d numero cliente monto = (factura numero cliente monto) \<lparr> v_Fecha := Some (dia d) \<rparr>"

text \<open>Three invoices of household F1 (300, 400 and 300, the third of the day before) with their index
  labels; the float64 values written 999.99 and 999.9.\<close>

definition tres_facturas :: "venta list" where
  "tres_facturas = [factura ''A'' ''JUAN PEREZ'' 300, factura ''B'' ''JUAN PEREZ'' 400,
                    factura_de_dia 4 ''C'' ''JUAN PEREZ'' 300]"

definition validas_tres :: "(nat \<times> venta) list" where
  "validas_tres = zip [0, 1, 2] tres_facturas"

definition pool_tres :: "venta list" where
  "pool_tres = [factura ''B'' ''JUAN PEREZ'' 400, factura ''A'' ''JUAN PEREZ'' 300,
                factura_de_dia 4 ''C'' ''JUAN PEREZ'' 300]"

definition float_999_99 :: rat where
  "float_999_99 = 4398002530638889 / 4398046511104"

definition float_999_9 :: rat where
  "float_999_9 = 8795213412905779 / 8796093022208"

text \<open>Two invoices of household F1, the first with a blank after its number, and two credits.\<close>

definition ventas_espacio :: "venta list" where
  "ventas_espacio = [factura ''A '' ''JUAN PEREZ'' 300, factura ''B'' ''JUAN PEREZ'' 400]"

definition banco_espacio :: "operacion list" where
  "banco_espacio = [credito 5 ''JUAN PEREZ'' 300, credito 5 ''JUAN PEREZ'' 700]"

definition exacto_espacio :: match where
  "exacto_espacio = registro_exacto ascii_db fam_ejemplo (factura ''A '' ''JUAN PEREZ'' 300)
                      (credito 5 ''JUAN PEREZ'' 300)"

text \<open>Two invoices of a client that is in no household, equal in date, client and amount, and the
  records pass 1 gives them against one credit of that date, name and amount.\<close>

definition dos_iguales :: "venta list" where
  "dos_iguales = [factura ''A'' ''CARLOS RUIZ'' 300, factura ''B'' ''CARLOS RUIZ'' 300]"

definition exactos_dos :: "match list" where
  "exactos_dos =
     [registro_exacto ascii_db fam_ejemplo (factura ''A'' ''CARLOS RUIZ'' 300) (credito 5 ''CARLOS RUIZ'' 300),
      registro_exacto ascii_db fam_ejemplo (factura ''B'' ''CARLOS RUIZ'' 300) (credito 5 ''CARLOS RUIZ'' 300)]"

text \<open>Two invoices of household F0 (labels 0 and 1), two of household F1 (labels 2 and 3), and two
  credits of 700 from household F1 on consecutive days.\<close>

definition cuatro_facturas :: "venta list" where
  "cuatro_facturas = [factura ''X'' ''ANA GOMEZ'' 100, factura ''Y'' ''ANA GOMEZ'' 200,
                      factura ''C'' ''JUAN PEREZ'' 300, factura ''D'' ''JUAN PEREZ'' 400]"

definition dos_creditos :: "operacion list" where
  "dos_creditos = [credito 5 ''JUAN PEREZ'' 700, credito 6 ''JUAN PEREZ'' 700]"

text \<open>An invoice dated at noon of day \<open>d\<close>, and four invoices of 700: one of household F0, one of
  household F1 dated two days after the others, and two more of household F1.\<close>

definition factura_a_mediodia :: "int \<Rightarrow> string \<Rightarrow> string \<Rightarrow> rat \<Rightarrow> venta" where
  "factura_a_mediodia d numero cliente monto =
     (factura numero cliente monto) \<lparr> v_Fecha := Some (dia d + 43200000000000) \<rparr>"


section \<open>Notions used to state the properties of the passes\<close>

text \<open>The filter pass 2 computes for a group, and what it means for a record to link a group of two
  or more invoices to a bank operation: the operation has the group's date, the group's total
  as amount, and a payer of the group's household.\<close>

definition mask_grupo :: "float_db \<Rightarrow> unicode_db \<Rightarrow> familias \<Rightarrow> clave_grupo \<times> venta list \<Rightarrow> operacion \<Rightarrow> bool" where
  "mask_grupo F U fam kg b \<longleftrightarrow>
     mask_fecha_monto (fst (fst kg)) (np_sum F (map monto_de (snd kg))) b \<and>
     obtener_familia_por_persona U fam (Some (b_Nombre b)) = snd (snd (fst kg))"

definition enlaza :: "float_db \<Rightarrow> unicode_db \<Rightarrow> familias \<Rightarrow> clave_grupo \<times> venta list \<Rightarrow> operacion \<Rightarrow> match \<Rightarrow> bool" where
  "enlaza F U fam kg b r \<longleftrightarrow>
     2 \<le> length (snd kg) \<and> r = registro_multi F U fam (snd kg) b \<and>
     b_Fecha b = Some (fst (fst kg)) \<and> b_Monto b = np_sum F (map monto_de (snd kg)) \<and>
     obtener_familia_por_persona U fam (Some (b_Nombre b)) = snd (snd (fst kg))"


section \<open>Properties of the text functions and of the normaliser\<close>

lemma split_acc_blank_tail:
  "\<forall>c \<in> set t. es_espacio c \<Longrightarrow> split_acc w t = split_acc w []"
  by (induction t arbitrary: w) auto

lemma split_acc_append_blanks:
  "\<forall>c \<in> set t. es_espacio c \<Longrightarrow> split_acc w (s @ t) = split_acc w s"
proof (induction s arbitrary: w)
  case Nil
  then show ?case using split_acc_blank_tail [of t w] by simp
next
  case (Cons c s)
  then show ?case by simp
qed

lemma split_acc_dropWhile:
  "split_acc [] (dropWhile es_espacio s) = split_acc [] s"
  by (induction s) auto

lemma py_split_strip: "py_split (py_strip s) = py_split s"
proof -
  let ?d = "dropWhile es_espacio s"
  have "?d = rev (dropWhile es_espacio (rev ?d)) @ rev (takeWhile es_espacio (rev ?d))"
    by (metis rev_append rev_rev_ident takeWhile_dropWhile_id)
  moreover have "\<forall>c \<in> set (rev (takeWhile es_espacio (rev ?d))). es_espacio c"
    by (auto dest: set_takeWhileD)
  ultimately have "split_acc [] ?d = split_acc [] (rev (dropWhile es_espacio (rev ?d)))"
    using split_acc_append_blanks by metis
  then show ?thesis
    by (simp add: py_split_def py_strip_def split_acc_dropWhile)
qed

lemma split_acc_word:
  "\<forall>c \<in> set x. \<not> es_espacio c \<Longrightarrow> split_acc w (x @ s) = split_acc (rev x @ w) s"
  by (induction x arbitrary: w) auto

lemma split_acc_blank_mid:
  "es_espacio c \<Longrightarrow> split_acc w (a @ c # b) = split_acc w a @ split_acc [] b"
  by (induction a arbitrary: w) auto

lemma AZ09_no_espacio: "es_AZ09 c \<Longrightarrow> \<not> es_espacio c"
  by (auto simp: es_AZ09_def es_espacio_def)

lemma espacio_32: "es_espacio 32" by (simp add: es_espacio_def)

lemma split_re_sub: "split_acc w (re_sub_no_alnum s) = runs_acc w s"
  by (induction s arbitrary: w) (auto simp: re_sub_no_alnum_def AZ09_no_espacio espacio_32)

lemma split_acc_nonempty: "set w \<noteq> {} \<or> w = [] \<Longrightarrow> [] \<notin> set (split_acc w s)"
  by (induction s arbitrary: w) auto

lemma split_acc_no_empty: "[] \<notin> set (split_acc [] s)"
  using split_acc_nonempty [of "[]" s] by simp

lemma filter_no_empty: "filter (\<lambda>tok. tok \<noteq> []) (py_split s) = py_split s"
proof -
  have "\<forall>tok \<in> set (py_split s). tok \<noteq> []"
    using split_acc_no_empty [of s] unfolding py_split_def by blast
  then show ?thesis by (simp add: filter_id_conv)
qed

lemma normalize_palabras:
  assumes "text \<noteq> NaN" "text \<noteq> Str []"
  shows "normalize_to_token_set U text = set (palabras (plegado U (py_str text)))"
proof -
  let ?s = "plegado U (py_str text)"
  have "normalize_to_token_set U text = set (filter (\<lambda>tok. tok \<noteq> []) (py_split (re_sub_no_alnum ?s)))"
    using assms by (simp add: normalize_to_token_set_def Let_def plegado_def)
  also have "\<dots> = set (py_split (re_sub_no_alnum ?s))"
    by (simp only: filter_no_empty)
  also have "\<dots> = set (palabras ?s)"
    by (simp add: py_split_def split_re_sub palabras_def)
  finally show ?thesis .
qed





















lemma casa_iff: "casa q v \<longleftrightarrow> q \<subseteq> v \<or> v \<subseteq> q"
  unfolding casa_def by blast

lemmas texto_eval = plegado_def palabras_def cp_def ascii_db_def demo_db_def py_strip_def
  es_AZ09_def es_espacio_def upper_ascii_def lower_ascii_def

section \<open>Properties of the family resolver\<close>

lemma revisar_columnas_iff:
  "revisar_columnas U q f cols \<longleftrightarrow>
     (\<exists>col \<in> set cols. \<exists>v. celda f col = Some v \<and> normalize_to_token_set U (Str v) \<noteq> {} \<and>
         casa q (normalize_to_token_set U (Str v)))"
proof (induction cols)
  case Nil
  then show ?case by simp
next
  case (Cons col cols)
  show ?case
  proof (cases "celda f col")
    case None
    then show ?thesis using Cons.IH by simp
  next
    case (Some v)
    show ?thesis
    proof (cases "normalize_to_token_set U (Str v) = {}")
      case True
      then show ?thesis using Some Cons.IH by simp
    next
      case False
      show ?thesis
      proof (cases "casa q (normalize_to_token_set U (Str v))")
        case True
        then have "revisar_columnas U q f (col # cols)"
          using Some False by (simp add: casa_def)
        moreover have "\<exists>c \<in> set (col # cols). \<exists>v. celda f c = Some v \<and>
            normalize_to_token_set U (Str v) \<noteq> {} \<and> casa q (normalize_to_token_set U (Str v))"
          using Some False True by simp
        ultimately show ?thesis by simp
      next
        case nc: False
        then have "revisar_columnas U q f (col # cols) = revisar_columnas U q f cols"
          using Some False by (simp add: casa_def)
        then show ?thesis using Some nc Cons.IH by simp
      qed
    qed
  qed
qed

lemma revisar_columnas_coincide:
  "revisar_columnas U q f (columnas_persona U fam) \<longleftrightarrow> coincide U fam q f"
  unfolding revisar_columnas_iff coincide_def columnas_persona_def by (auto split: option.splits)

lemma revisar_filas_none:
  "\<forall>f \<in> set fs. \<not> revisar_columnas U q f cols \<Longrightarrow> revisar_filas U q cols fs = NO_ENCONTRADA"
  by (induction fs) auto

lemma revisar_filas_first:
  "i < length fs \<Longrightarrow> revisar_columnas U q (fs ! i) cols \<Longrightarrow>
   \<forall>j < i. \<not> revisar_columnas U q (fs ! j) cols \<Longrightarrow>
   revisar_filas U q cols fs = Codigo (fs ! i)"
proof (induction fs arbitrary: i)
  case Nil
  then show ?case by simp
next
  case (Cons f fs)
  show ?case
  proof (cases i)
    case 0
    with Cons.prems show ?thesis by simp
  next
    case (Suc k)
    with Cons.prems have "\<not> revisar_columnas U q f cols" by auto
    moreover have "revisar_filas U q cols fs = Codigo (fs ! k)"
      using Cons.prems Suc by (intro Cons.IH) auto
    ultimately show ?thesis using Suc by simp
  qed
qed

lemma revisar_filas_cases:
  "revisar_filas U q cols fs = NO_ENCONTRADA \<and> (\<forall>f \<in> set fs. \<not> revisar_columnas U q f cols) \<or>
   (\<exists>i < length fs. revisar_columnas U q (fs ! i) cols \<and>
        (\<forall>j < i. \<not> revisar_columnas U q (fs ! j) cols) \<and>
        revisar_filas U q cols fs = Codigo (fs ! i))"
proof (induction fs)
  case Nil
  then show ?case by simp
next
  case (Cons f fs)
  show ?case
  proof (cases "revisar_columnas U q f cols")
    case True
    then have "0 < length (f # fs) \<and> revisar_columnas U q ((f # fs) ! 0) cols \<and>
        (\<forall>j < 0. \<not> revisar_columnas U q ((f # fs) ! j) cols) \<and>
        revisar_filas U q cols (f # fs) = Codigo ((f # fs) ! 0)" by simp
    then show ?thesis by blast
  next
    case False
    from Cons.IH show ?thesis
    proof
      assume "revisar_filas U q cols fs = NO_ENCONTRADA \<and> (\<forall>f \<in> set fs. \<not> revisar_columnas U q f cols)"
      with False show ?thesis by simp
    next
      assume "\<exists>i < length fs. revisar_columnas U q (fs ! i) cols \<and>
        (\<forall>j < i. \<not> revisar_columnas U q (fs ! j) cols) \<and>
        revisar_filas U q cols fs = Codigo (fs ! i)"
      then obtain i where i: "i < length fs" "revisar_columnas U q (fs ! i) cols"
        "\<forall>j < i. \<not> revisar_columnas U q (fs ! j) cols" "revisar_filas U q cols fs = Codigo (fs ! i)"
        by blast
      have "\<forall>j < Suc i. \<not> revisar_columnas U q ((f # fs) ! j) cols"
        using False i(3) by (auto simp: less_Suc_eq_0_disj)
      with i False have "Suc i < length (f # fs) \<and> revisar_columnas U q ((f # fs) ! Suc i) cols \<and>
        (\<forall>j < Suc i. \<not> revisar_columnas U q ((f # fs) ! j) cols) \<and>
        revisar_filas U q cols (f # fs) = Codigo ((f # fs) ! Suc i)" by simp
      then show ?thesis by blast
    qed
  qed
qed

lemma resolver_nonempty:
  assumes "nombre \<noteq> None" "nombre \<noteq> Some []"
  shows "obtener_familia_por_persona U fam nombre =
         revisar_filas U (normalize_to_token_set U (de_celda nombre)) (columnas_persona U fam) (filas fam)"
  using assms by (auto simp: obtener_familia_por_persona_def)

lemma resolver_empty:
  assumes "nombre = None \<or> nombre = Some []"
  shows "obtener_familia_por_persona U fam nombre = NO_IDENTIFICADA"
  using assms by (auto simp: obtener_familia_por_persona_def)

lemma sentinels_differ: "NO_IDENTIFICADA \<noteq> NO_ENCONTRADA"
  by (simp add: NO_IDENTIFICADA_def NO_ENCONTRADA_def cp_def)

section \<open>Evaluating the passes on the example tables\<close>

lemma juan_F1: "obtener_familia_por_persona ascii_db fam_ejemplo (Some (cp ''JUAN PEREZ'')) = cp ''F1''"
  by (simp add: resolver_nonempty revisar_columnas_coincide coincide_def
        fam_ejemplo_def de_celda_def casa_iff normalize_palabras texto_eval)

lemma ana_F0: "obtener_familia_por_persona ascii_db fam_ejemplo (Some (cp ''ANA GOMEZ'')) = cp ''F0''"
  by (simp add: resolver_nonempty revisar_columnas_coincide coincide_def
        fam_ejemplo_def de_celda_def casa_iff normalize_palabras texto_eval)

lemmas familias_eval = juan_F1 [unfolded cp_def, simplified] ana_F0 [unfolded cp_def, simplified]

lemmas tablas_eval = factura_def credito_def completa_def la_fecha_def monto_de_def dia_def
  str_celda_def clave_banco_def clave_match_def clave_op_def claves_resultados_def
  NO_ENCONTRADA_def NO_IDENTIFICADA_def codigo_familia_def cp_def float_exacto_def

lemmas pass2_eval = matcheo_multifacturas_misma_familia_dia_caja_def ventas_validas_2_def
  banco_disponible_def groupby_def clave_de_grupo_def facturas_matcheadas_def facturas_de_match_def
  mask_fecha_monto_def seleccionar_def registro_multi_def familia_val_def split_coma_def

section \<open>Properties of pass 2\<close>

lemma clave_registro_multi: "clave_match U (registro_multi F U fam g b) = clave_banco U b"
  by (simp add: clave_match_def clave_banco_def registro_multi_def)

lemma seleccionar_map: "seleccionar (map P xs) xs = filter P xs"
  by (induction xs) (simp_all add: seleccionar_def)

lemma registrar_props:
  "registrar_coincidencias F U fam g cs (mo, mn) = (mo', mn') \<Longrightarrow>
     (\<forall>b \<in> set cs. clave_banco U b \<in> mo') \<and>
     (\<exists>ns. mn' = mn @ ns \<and> distinct (map (clave_match U) ns) \<and>
        mo' = mo \<union> set (map (clave_match U) ns) \<and> set (map (clave_match U) ns) \<inter> mo = {} \<and>
        (\<forall>r \<in> set ns. \<exists>b \<in> set cs. r = registro_multi F U fam g b \<and> clave_banco U b \<notin> mo))"
proof (induction cs arbitrary: mo mn)
  case Nil
  then show ?case by simp
next
  case (Cons b cs)
  show ?case
  proof (cases "clave_banco U b \<in> mo")
    case True
    with Cons.prems have "registrar_coincidencias F U fam g cs (mo, mn) = (mo', mn')" by simp
    from Cons.IH [OF this] obtain ns where ns: "\<forall>b \<in> set cs. clave_banco U b \<in> mo'"
      "mn' = mn @ ns" "distinct (map (clave_match U) ns)" "mo' = mo \<union> set (map (clave_match U) ns)"
      "set (map (clave_match U) ns) \<inter> mo = {}"
      "\<forall>r \<in> set ns. \<exists>b \<in> set cs. r = registro_multi F U fam g b \<and> clave_banco U b \<notin> mo"
      by blast
    have 1: "\<forall>c \<in> set (b # cs). clave_banco U c \<in> mo'" using ns(1,4) True by simp
    have 2: "\<forall>r \<in> set ns. \<exists>c \<in> set (b # cs). r = registro_multi F U fam g c \<and> clave_banco U c \<notin> mo"
      using ns(6) by auto
    from 1 2 ns(2,3,4,5) show ?thesis by blast
  next
    case False
    let ?k = "clave_banco U b" and ?r = "registro_multi F U fam g b"
    from False Cons.prems
    have "registrar_coincidencias F U fam g cs (insert ?k mo, mn @ [?r]) = (mo', mn')" by simp
    from Cons.IH [OF this] obtain ns where ns: "\<forall>b \<in> set cs. clave_banco U b \<in> mo'"
      "mn' = (mn @ [?r]) @ ns" "distinct (map (clave_match U) ns)"
      "mo' = insert ?k mo \<union> set (map (clave_match U) ns)"
      "set (map (clave_match U) ns) \<inter> insert ?k mo = {}"
      "\<forall>r \<in> set ns. \<exists>b \<in> set cs. r = registro_multi F U fam g b \<and> clave_banco U b \<notin> insert ?k mo"
      by blast
    have kr: "clave_match U ?r = ?k" by (rule clave_registro_multi)
    have 1: "\<forall>c \<in> set (b # cs). clave_banco U c \<in> mo'" using ns(1,4) by simp
    have 2: "mn' = mn @ (?r # ns)" using ns(2) by simp
    have 3: "distinct (map (clave_match U) (?r # ns))" using ns(3,5) kr by auto
    have 4: "mo' = mo \<union> set (map (clave_match U) (?r # ns))" using ns(4) kr by auto
    have 5: "set (map (clave_match U) (?r # ns)) \<inter> mo = {}" using ns(5) kr False by auto
    have 6: "\<forall>r \<in> set (?r # ns). \<exists>c \<in> set (b # cs). r = registro_multi F U fam g c \<and> clave_banco U c \<notin> mo"
      using ns(6) False by auto
    from 1 2 3 4 5 6 show ?thesis by blast
  qed
qed

lemma procesar_grupos_short:
  "length (snd kg) < 2 \<Longrightarrow>
   procesar_grupos F U fam disp (kg # gs) (msk, mo, mn) = procesar_grupos F U fam disp gs (msk, mo, mn)"
  by (cases kg) auto

lemma procesar_grupos_step:
  assumes "\<not> length (snd kg) < 2"
  shows "procesar_grupos F U fam disp (kg # gs) (msk, mo, mn) =
     (case (if filter (mask_fecha_monto (fst (fst kg)) (np_sum F (map monto_de (snd kg)))) disp \<noteq> []
            then Some (map (mask_grupo F U fam kg) disp) else msk) of
        None \<Rightarrow> Inl NameError
      | Some m \<Rightarrow>
          procesar_grupos F U fam disp gs
            (Some m, fst (registrar_coincidencias F U fam (snd kg) (seleccionar m disp) (mo, mn)),
                     snd (registrar_coincidencias F U fam (snd kg) (seleccionar m disp) (mo, mn))))"
proof -
  obtain fecha caja codigo g where kg: "kg = ((fecha, caja, codigo), g)"
    by (metis prod.exhaust)
  have m: "mask_grupo F U fam ((fecha, caja, codigo), g) =
      (\<lambda>b. mask_fecha_monto fecha (np_sum F (map monto_de g)) b \<and>
           obtener_familia_por_persona U fam (Some (b_Nombre b)) = codigo)"
    by (rule ext) (simp add: mask_grupo_def)
  show ?thesis using assms unfolding kg
    by (simp add: Let_def m split: option.splits prod.splits)
qed

lemma procesar_grupos_props:
  assumes "procesar_grupos F U fam disp gs (msk, mo, mn) = Inr (msk', mo', mn')"
    and "\<forall>m. msk = Some m \<longrightarrow> (\<forall>b \<in> set (seleccionar m disp). clave_banco U b \<in> mo)"
  shows "\<exists>ns. mn' = mn @ ns \<and> distinct (map (clave_match U) ns) \<and>
           set (map (clave_match U) ns) \<inter> mo = {} \<and>
           (\<forall>r \<in> set ns. \<exists>kg \<in> set gs. \<exists>b \<in> set disp. enlaza F U fam kg b r \<and> clave_banco U b \<notin> mo)"
  using assms
proof (induction gs arbitrary: msk mo mn)
  case Nil
  then show ?case by simp
next
  case (Cons kg gs)
  show ?case
  proof (cases "length (snd kg) < 2")
    case True
    with Cons.prems(1) have "procesar_grupos F U fam disp gs (msk, mo, mn) = Inr (msk', mo', mn')"
      by (simp add: procesar_grupos_short)
    from Cons.IH [OF this Cons.prems(2)] obtain ns where ns: "mn' = mn @ ns"
      "distinct (map (clave_match U) ns)" "set (map (clave_match U) ns) \<inter> mo = {}"
      "\<forall>r \<in> set ns. \<exists>kg \<in> set gs. \<exists>b \<in> set disp. enlaza F U fam kg b r \<and> clave_banco U b \<notin> mo"
      by blast
    from ns(4) have "\<forall>r \<in> set ns. \<exists>kg' \<in> set (kg # gs). \<exists>b \<in> set disp. enlaza F U fam kg' b r \<and> clave_banco U b \<notin> mo"
      by auto
    with ns(1,2,3) show ?thesis by blast
  next
    case False
    let ?g = "snd kg"
    let ?cand = "filter (mask_fecha_monto (fst (fst kg)) (np_sum F (map monto_de ?g))) disp"
    let ?msk1 = "if ?cand \<noteq> [] then Some (map (mask_grupo F U fam kg) disp) else msk"
    note step = procesar_grupos_step [OF False, where F = F and U = U and fam = fam and disp = disp and gs = gs and msk = msk and mo = mo and mn = mn]
    from Cons.prems(1) step obtain m where m: "?msk1 = Some m"
      by (cases ?msk1) auto
    let ?sel = "seleccionar m disp"
    obtain mo1 mn1 where reg: "registrar_coincidencias F U fam ?g ?sel (mo, mn) = (mo1, mn1)"
      by (cases "registrar_coincidencias F U fam ?g ?sel (mo, mn)") auto
    from Cons.prems(1) step m reg
    have rest: "procesar_grupos F U fam disp gs (Some m, mo1, mn1) = Inr (msk', mo', mn')" by simp
    from registrar_props [OF reg] obtain ns1 where ns1:
      "\<forall>b \<in> set ?sel. clave_banco U b \<in> mo1" "mn1 = mn @ ns1" "distinct (map (clave_match U) ns1)"
      "mo1 = mo \<union> set (map (clave_match U) ns1)" "set (map (clave_match U) ns1) \<inter> mo = {}"
      "\<forall>r \<in> set ns1. \<exists>b \<in> set ?sel. r = registro_multi F U fam ?g b \<and> clave_banco U b \<notin> mo"
      by blast
    have inv: "\<forall>m'. Some m = Some m' \<longrightarrow> (\<forall>b \<in> set (seleccionar m' disp). clave_banco U b \<in> mo1)"
      using ns1(1) by simp
    from Cons.IH [OF rest inv] obtain ns2 where ns2: "mn' = mn1 @ ns2"
      "distinct (map (clave_match U) ns2)" "set (map (clave_match U) ns2) \<inter> mo1 = {}"
      "\<forall>r \<in> set ns2. \<exists>kg \<in> set gs. \<exists>b \<in> set disp. enlaza F U fam kg b r \<and> clave_banco U b \<notin> mo1"
      by blast
    have sel_ok: "b \<in> set disp \<and> mask_grupo F U fam kg b" if "b \<in> set ?sel" "clave_banco U b \<notin> mo" for b
    proof (cases "?cand \<noteq> []")
      case True
      with m have "m = map (mask_grupo F U fam kg) disp" by simp
      with that(1) show ?thesis by (simp add: seleccionar_map)
    next
      case False
      with m have "msk = Some m" by simp
      with Cons.prems(2) that(1) have "clave_banco U b \<in> mo" by blast
      with that(2) show ?thesis by simp
    qed
    have r1: "\<exists>kg' \<in> set (kg # gs). \<exists>b \<in> set disp. enlaza F U fam kg' b r \<and> clave_banco U b \<notin> mo"
      if "r \<in> set ns1" for r
    proof -
      from ns1(6) that obtain b where b: "b \<in> set ?sel" "r = registro_multi F U fam ?g b" "clave_banco U b \<notin> mo"
        by blast
      from sel_ok [OF b(1,3)] have "b \<in> set disp" "mask_grupo F U fam kg b" by simp_all
      then have "enlaza F U fam kg b r" using b(2) False
        by (simp add: enlaza_def mask_grupo_def mask_fecha_monto_def)
      with \<open>b \<in> set disp\<close> b(3) show ?thesis by auto
    qed
    have r2: "\<exists>kg' \<in> set (kg # gs). \<exists>b \<in> set disp. enlaza F U fam kg' b r \<and> clave_banco U b \<notin> mo"
      if "r \<in> set ns2" for r
    proof -
      from ns2(4) that obtain kg' b where "kg' \<in> set gs" "b \<in> set disp" "enlaza F U fam kg' b r"
        "clave_banco U b \<notin> mo1" by blast
      moreover then have "clave_banco U b \<notin> mo" using ns1(4) by simp
      ultimately show ?thesis by auto
    qed
    have a: "mn' = mn @ (ns1 @ ns2)" using ns1(2) ns2(1) by simp
    have b: "distinct (map (clave_match U) (ns1 @ ns2))"
      using ns1(3,4) ns2(2,3) by auto
    have c: "set (map (clave_match U) (ns1 @ ns2)) \<inter> mo = {}"
      using ns1(4,5) ns2(3) by auto
    have d: "\<forall>r \<in> set (ns1 @ ns2). \<exists>kg' \<in> set (kg # gs). \<exists>b \<in> set disp. enlaza F U fam kg' b r \<and> clave_banco U b \<notin> mo"
      using r1 r2 by auto
    from a b c d show ?thesis by blast
  qed
qed

lemma groupby_member:
  "kg \<in> set (groupby U fam validas) \<Longrightarrow> v \<in> set (snd kg) \<Longrightarrow>
   v \<in> set validas \<and> clave_de_grupo U fam v = fst kg"
  by (auto simp: groupby_def)

lemma ventas_validas_2_member:
  "v \<in> set (ventas_validas_2 U fam resultados ventas) \<Longrightarrow>
   v \<in> set ventas \<and> completa v \<and> str_celda (v_Factura v) \<notin> facturas_matcheadas resultados"
  by (simp add: ventas_validas_2_def)

lemma completa_fecha: "completa v \<Longrightarrow> v_Fecha v = Some (la_fecha v)"
  by (auto simp: completa_def la_fecha_def)

lemma tipo_registro_multi: "enlaza F U fam kg b r \<Longrightarrow> Tipo_Match r = cp ''MULTI_FACTURAS''"
  by (simp add: enlaza_def registro_multi_def)


lemma pass2_records:
  assumes "matcheo_multifacturas_misma_familia_dia_caja F U fam ventas banco resultados = Inr resultados'"
  shows "\<exists>nuevos. resultados' = resultados @ nuevos \<and>
     (\<forall>r \<in> set nuevos.
        \<exists>kg \<in> set (groupby U fam (ventas_validas_2 U fam resultados ventas)). \<exists>b \<in> set banco.
          Tipo_Match r = cp ''MULTI_FACTURAS'' \<and> enlaza F U fam kg b r \<and>
          clave_banco U b \<notin> claves_resultados U resultados \<and>
          (\<forall>v \<in> set (snd kg).
             v \<in> set ventas \<and> str_celda (v_Factura v) \<notin> facturas_matcheadas resultados \<and>
             v_Fecha v = Some (fst (fst kg)) \<and> v_Numero_Caja v = fst (snd (fst kg)) \<and>
             codigo_familia U fam v = snd (snd (fst kg))))"
proof -
  let ?disp = "banco_disponible U resultados banco"
  let ?gs = "groupby U fam (ventas_validas_2 U fam resultados ventas)"
  let ?mo = "claves_resultados U resultados"
  from assms obtain msk' mo' mn' where
    run: "procesar_grupos F U fam ?disp ?gs (None, ?mo, []) = Inr (msk', mo', mn')"
    and res: "resultados' = resultados @ mn'"
    by (auto simp: matcheo_multifacturas_misma_familia_dia_caja_def split: sum.splits)
  have inv: "\<forall>m. (None :: bool list option) = Some m \<longrightarrow> (\<forall>b \<in> set (seleccionar m ?disp). clave_banco U b \<in> ?mo)"
    by simp
  from procesar_grupos_props [OF run inv] obtain ns where ns: "mn' = [] @ ns"
    "\<forall>r \<in> set ns. \<exists>kg \<in> set ?gs. \<exists>b \<in> set ?disp. enlaza F U fam kg b r \<and> clave_banco U b \<notin> ?mo"
    by blast
  have "\<exists>kg \<in> set ?gs. \<exists>b \<in> set banco.
          Tipo_Match r = cp ''MULTI_FACTURAS'' \<and> enlaza F U fam kg b r \<and> clave_banco U b \<notin> ?mo \<and>
          (\<forall>v \<in> set (snd kg).
             v \<in> set ventas \<and> str_celda (v_Factura v) \<notin> facturas_matcheadas resultados \<and>
             v_Fecha v = Some (fst (fst kg)) \<and> v_Numero_Caja v = fst (snd (fst kg)) \<and>
             codigo_familia U fam v = snd (snd (fst kg)))" if "r \<in> set ns" for r
  proof -
    from ns(2) that obtain kg b where kg: "kg \<in> set ?gs" and b: "b \<in> set ?disp"
      and e: "enlaza F U fam kg b r" and k: "clave_banco U b \<notin> ?mo" by blast
    have b': "b \<in> set banco" using b by (simp add: banco_disponible_def)
    have "v \<in> set ventas \<and> str_celda (v_Factura v) \<notin> facturas_matcheadas resultados \<and>
             v_Fecha v = Some (fst (fst kg)) \<and> v_Numero_Caja v = fst (snd (fst kg)) \<and>
             codigo_familia U fam v = snd (snd (fst kg))" if "v \<in> set (snd kg)" for v
    proof -
      from groupby_member [OF kg that] have 1: "v \<in> set (ventas_validas_2 U fam resultados ventas)"
        and 2: "clave_de_grupo U fam v = fst kg" by simp_all
      from ventas_validas_2_member [OF 1] have 3: "v \<in> set ventas" "completa v"
        "str_celda (v_Factura v) \<notin> facturas_matcheadas resultados" by simp_all
      from 2 have "fst kg = (la_fecha v, v_Numero_Caja v, codigo_familia U fam v)"
        by (simp add: clave_de_grupo_def)
      then have "la_fecha v = fst (fst kg)" "v_Numero_Caja v = fst (snd (fst kg))"
        "codigo_familia U fam v = snd (snd (fst kg))"
        by simp_all
      with 3 completa_fecha [OF 3(2)] show ?thesis by simp
    qed
    with kg b' e k tipo_registro_multi [OF e] show ?thesis by blast
  qed
  with res ns(1) show ?thesis by auto
qed

lemma pass2_scenario:
  "matcheo_multifacturas_misma_familia_dia_caja float_exacto ascii_db fam_ejemplo
     [factura ''A'' ''JUAN PEREZ'' 300, factura ''B'' ''JUAN PEREZ'' 400]
     [credito 5 ''JUAN PEREZ'' 700] [] =
   Inr [registro_multi float_exacto ascii_db fam_ejemplo
          [factura ''A'' ''JUAN PEREZ'' 300, factura ''B'' ''JUAN PEREZ'' 400] (credito 5 ''JUAN PEREZ'' 700)]"
  by (simp add: pass2_eval tablas_eval familias_eval)

section \<open>Properties of pass 4\<close>




lemma buscar_k_Some:
  "buscar_k F m pool ks = Some c \<Longrightarrow>
   \<exists>kpre k kpost. ks = kpre @ k # kpost \<and>
      buscar_combo F m pool (combinations [0..<length pool] k) = Some c \<and>
      (\<forall>j \<in> set kpre. buscar_combo F m pool (combinations [0..<length pool] j) = None)"
proof (induction ks)
  case Nil
  then show ?case by simp
next
  case (Cons k ks)
  show ?case
  proof (cases "buscar_combo F m pool (combinations [0..<length pool] k)")
    case None
    with Cons.prems have "buscar_k F m pool ks = Some c" by simp
    from Cons.IH [OF this] obtain kpre k' kpost where p: "ks = kpre @ k' # kpost"
      "buscar_combo F m pool (combinations [0..<length pool] k') = Some c"
      "\<forall>j \<in> set kpre. buscar_combo F m pool (combinations [0..<length pool] j) = None"
      by blast
    with None have "k # ks = (k # kpre) @ k' # kpost \<and>
      buscar_combo F m pool (combinations [0..<length pool] k') = Some c \<and>
      (\<forall>j \<in> set (k # kpre). buscar_combo F m pool (combinations [0..<length pool] j) = None)" by simp
    then show ?thesis by blast
  next
    case (Some d)
    with Cons.prems have "d = c" by simp
    with Some have "k # ks = [] @ k # ks \<and>
      buscar_combo F m pool (combinations [0..<length pool] k) = Some c \<and>
      (\<forall>j \<in> set []. buscar_combo F m pool (combinations [0..<length pool] j) = None)" by simp
    then show ?thesis by blast
  qed
qed

lemma clave_registro_familia_banco:
  "clave_match U (registro_familia_banco F U fam b s) = clave_banco U b"
  by (simp add: clave_match_def clave_banco_def registro_familia_banco_def)

lemma procesar_operaciones_4_step:
  assumes "procesar_operaciones_4 F P U fam validas (b # ops) (usado, mo, mn) = Inr st'"
  shows "procesar_operaciones_4 F P U fam validas ops (usado, mo, mn) = Inr st' \<or>
     (clave_banco U b \<notin> mo \<and>
      (\<exists>idxs s. procesar_operaciones_4 F P U fam validas ops
          (usado \<union> set idxs, insert (clave_banco U b) mo, mn @ [registro_familia_banco F U fam b s]) = Inr st'))"
proof (cases "clave_banco U b \<in> mo")
  case True
  with assms show ?thesis by simp
next
  case False
  show ?thesis
  proof (cases "seleccionar_candidatos P U fam validas usado b")
    case (Inl e)
    with assms False show ?thesis by simp
  next
    case (Inr candidatos)
    show ?thesis
    proof (cases "length candidatos < 2")
      case True
      with assms False Inr show ?thesis by simp
    next
      case nl: False
      let ?pool = "candidatos_restringidos P (b_Fecha b) candidatos"
      show ?thesis
      proof (cases "buscar_k F (b_Monto b) ?pool [2..<min 8 (length ?pool) + 1]")
        case None
        with assms False Inr nl show ?thesis by (simp add: Let_def)
      next
        case (Some idxs)
        show ?thesis
        proof (cases "set idxs \<subseteq> set (map fst validas)")
          case True
          with assms False Inr nl Some
          have "procesar_operaciones_4 F P U fam validas ops
             (usado \<union> set idxs, insert (clave_banco U b) mo,
              mn @ [registro_familia_banco F U fam b (map ((!) ?pool) idxs)]) = Inr st'"
            by (simp add: Let_def)
          with False show ?thesis by blast
        next
          case ns: False
          with assms False Inr nl Some show ?thesis by (simp add: Let_def)
        qed
      qed
    qed
  qed
qed

lemma procesar_operaciones_4_keys:
  "procesar_operaciones_4 F P U fam validas ops (usado, mo, mn) = Inr (usado', mo', mn') \<Longrightarrow>
   \<exists>ns. mn' = mn @ ns \<and> distinct (map (clave_match U) ns) \<and>
        set (map (clave_match U) ns) \<inter> mo = {} \<and> mo' = mo \<union> set (map (clave_match U) ns)"
proof (induction ops arbitrary: usado mo mn)
  case Nil
  then show ?case by simp
next
  case (Cons b ops)
  from procesar_operaciones_4_step [OF Cons.prems] show ?case
  proof
    assume "procesar_operaciones_4 F P U fam validas ops (usado, mo, mn) = Inr (usado', mo', mn')"
    then show ?thesis by (rule Cons.IH)
  next
    assume "clave_banco U b \<notin> mo \<and>
      (\<exists>idxs s. procesar_operaciones_4 F P U fam validas ops
          (usado \<union> set idxs, insert (clave_banco U b) mo, mn @ [registro_familia_banco F U fam b s]) =
          Inr (usado', mo', mn'))"
    then obtain idxs s where k: "clave_banco U b \<notin> mo"
      and run: "procesar_operaciones_4 F P U fam validas ops
          (usado \<union> set idxs, insert (clave_banco U b) mo, mn @ [registro_familia_banco F U fam b s]) =
          Inr (usado', mo', mn')" by blast
    let ?r = "registro_familia_banco F U fam b s"
    have kr: "clave_match U ?r = clave_banco U b" by (rule clave_registro_familia_banco)
    from Cons.IH [OF run] obtain ns where ns: "mn' = (mn @ [?r]) @ ns"
      "distinct (map (clave_match U) ns)"
      "set (map (clave_match U) ns) \<inter> insert (clave_banco U b) mo = {}"
      "mo' = insert (clave_banco U b) mo \<union> set (map (clave_match U) ns)" by blast
    have 1: "mn' = mn @ (?r # ns)" using ns(1) by simp
    have 2: "distinct (map (clave_match U) (?r # ns))" using ns(2,3) kr by auto
    have 3: "set (map (clave_match U) (?r # ns)) \<inter> mo = {}" using ns(3) kr k by auto
    have 4: "mo' = mo \<union> set (map (clave_match U) (?r # ns))" using ns(4) kr by auto
    from 1 2 3 4 show ?thesis by blast
  qed
qed

section \<open>Pass 4 on the example tables\<close>

lemma combinations_numeral [simp]:
  "combinations [] (numeral k) = []"
  "combinations (x # xs) (numeral k) =
     map ((#) x) (combinations xs (pred_numeral k)) @ combinations xs (numeral k)"
  by (simp_all add: numeral_eq_Suc)

lemma combinations_1 [simp]:
  "combinations [] 1 = []"
  "combinations (x # xs) 1 = [x] # combinations xs 1"
  by simp_all

lemma factura_simps [simp]:
  "v_Fecha (factura n c m) = Some (dia 5)" "v_Nombre_Cliente (factura n c m) = Some (cp c)"
  "v_Monto (factura n c m) = Some m" "v_Factura (factura n c m) = Some (cp n)"
  "v_Numero_Caja (factura n c m) = cp ''010''"
  by (simp_all add: factura_def)

lemma factura_de_dia_simps [simp]:
  "v_Fecha (factura_de_dia d n c m) = Some (dia d)" "v_Nombre_Cliente (factura_de_dia d n c m) = Some (cp c)"
  "v_Monto (factura_de_dia d n c m) = Some m" "v_Factura (factura_de_dia d n c m) = Some (cp n)"
  "v_Numero_Caja (factura_de_dia d n c m) = cp ''010''"
  by (simp_all add: factura_de_dia_def)

lemma credito_simps [simp]:
  "b_Fecha (credito d n m) = Some (dia d)" "b_Nombre (credito d n m) = cp n" "b_Monto (credito d n m) = m"
  by (simp_all add: credito_def)

lemma ventas_validas_tres: "ventas_validas_4 tres_facturas = validas_tres"
  by (simp add: ventas_validas_4_def validas_tres_def tres_facturas_def completa_def)

lemma labels_tres: "0 \<in> fst ` set validas_tres" "Suc 0 \<in> fst ` set validas_tres"
  "Suc (Suc 0) \<in> fst ` set validas_tres"
  by (simp_all add: validas_tres_def tres_facturas_def)

lemma length_validas_tres: "length validas_tres = 3"
  by (simp add: validas_tres_def tres_facturas_def)

lemma codigo_juan: "v_Nombre_Cliente v = Some (cp ''JUAN PEREZ'') \<Longrightarrow> codigo_familia ascii_db fam_ejemplo v = cp ''F1''"
  by (simp add: codigo_familia_def juan_F1)

lemma codigo_ana: "v_Nombre_Cliente v = Some (cp ''ANA GOMEZ'') \<Longrightarrow> codigo_familia ascii_db fam_ejemplo v = cp ''F0''"
  by (simp add: codigo_familia_def ana_F0)

lemma F1_ok: "cp ''F1'' \<noteq> NO_ENCONTRADA" "cp ''F1'' \<noteq> NO_IDENTIFICADA" "cp ''F1'' \<noteq> []"
  "cp ''F0'' \<noteq> cp ''F1''"
  by (simp_all add: NO_ENCONTRADA_def NO_IDENTIFICADA_def cp_def)

lemma candidatos_tres:
  "seleccionar_candidatos pandas_simple ascii_db fam_ejemplo validas_tres {}
     (credito d ''JUAN PEREZ'' m) = Inr validas_tres"
  by (simp add: seleccionar_candidatos_def juan_F1 F1_ok validas_tres_def tres_facturas_def codigo_juan)

lemma restringidos_tres: "candidatos_restringidos pandas_simple (Some (dia 5)) validas_tres = pool_tres"
  by (simp add: candidatos_restringidos_def pandas_simple_def validas_tres_def tres_facturas_def
      pool_tres_def orden_candidatos_def diff_dias_def MAX_CANDIDATOS_def la_fecha_def monto_de_def
      days_def dia_def)

lemma length_pool_tres: "length pool_tres = 3"
  by (simp add: pool_tres_def)

lemmas busqueda_eval = suma_subset_def TOL_def float_001_def float_exacto_def monto_de_def
  pool_tres_def float_999_99_def float_999_9_def

lemma buscar_1000: "buscar_k float_exacto 1000 pool_tres [2, 3] = Some [0, 1, 2]"
  by (simp add: busqueda_eval)



lemma rango_k: "[2..<min 8 (length pool_tres) + 1] = [2, 3]"
  by (simp add: length_pool_tres)

lemmas pass4_tres = matcheo_multifacturas_misma_familia_mismo_dia_caja_def ventas_validas_tres
  length_validas_tres labels_tres claves_resultados_def candidatos_tres restringidos_tres rango_k




section \<open>The passes on the other example tables\<close>

lemma espacio_pass1: "matcheo_exacto ascii_db fam_ejemplo ventas_espacio banco_espacio = [exacto_espacio]"
  by (simp add: matcheo_exacto_def coincide_exacto_def ventas_espacio_def banco_espacio_def
        exacto_espacio_def completa_def str_celda_def)

lemma espacio_factura: "m_Factura exacto_espacio = Some (cp ''A '')"
  by (simp add: exacto_espacio_def registro_exacto_def)

lemma espacio_pass2:
  "matcheo_multifacturas_misma_familia_dia_caja float_exacto ascii_db fam_ejemplo ventas_espacio
     banco_espacio [exacto_espacio] =
   Inr [exacto_espacio,
        \<lparr> Tipo_Match = cp ''MULTI_FACTURAS'', m_Factura = Some (cp ''A ,B''),
          Fecha_Banco = Some (dia 5), Nombre_Banco = cp ''JUAN PEREZ'', Monto_Banco = 700,
          Familia = Some (cp ''F1''), Grupo_Familiar = None, Monto_Factura = Some 700,
          Cantidad_Facturas = Some 2 \<rparr>]"
  by (simp add: pass2_eval tablas_eval familias_eval py_strip_def es_espacio_def ventas_espacio_def
        banco_espacio_def exacto_espacio_def registro_exacto_def)

lemma pass4_1000_previo:
  "matcheo_multifacturas_misma_familia_mismo_dia_caja float_exacto pandas_simple ascii_db fam_ejemplo
     tres_facturas [credito 5 ''JUAN PEREZ'' 1000] [exacto_espacio] =
   Inr [exacto_espacio,
        registro_familia_banco float_exacto ascii_db fam_ejemplo (credito 5 ''JUAN PEREZ'' 1000) pool_tres]"
  by (simp add: pass4_tres busqueda_eval clave_banco_def clave_match_def clave_op_def exacto_espacio_def
        registro_exacto_def)

lemma dos_pass1: "matcheo_exacto ascii_db fam_ejemplo dos_iguales [credito 5 ''CARLOS RUIZ'' 300] = exactos_dos"
  by (simp add: matcheo_exacto_def coincide_exacto_def dos_iguales_def exactos_dos_def completa_def
        str_celda_def)

lemma dos_pass2:
  "matcheo_multifacturas_misma_familia_dia_caja float_exacto ascii_db fam_ejemplo dos_iguales
     [credito 5 ''CARLOS RUIZ'' 300] exactos_dos = Inr exactos_dos"
  by (simp add: pass2_eval dos_iguales_def exactos_dos_def registro_exacto_def str_celda_def
        completa_def py_strip_def es_espacio_def cp_def)

lemma carlos_sin_familia:
  "validar_pertenencia_familia ascii_db fam_ejemplo (Some (cp ''CARLOS RUIZ'')) = None"
  by (simp add: validar_pertenencia_familia_def columnas_Persona_def fam_ejemplo_def texto_eval)

lemma dos_pass3:
  "matcheo_por_grupo_familiar float_exacto P ascii_db fam_ejemplo dos_iguales
     [credito 5 ''CARLOS RUIZ'' 300] exactos_dos = exactos_dos"
  by (simp add: matcheo_por_grupo_familiar_def carlos_sin_familia)

lemma dos_pass4:
  "matcheo_multifacturas_misma_familia_mismo_dia_caja float_exacto P ascii_db fam_ejemplo dos_iguales
     [credito 5 ''CARLOS RUIZ'' 300] exactos_dos = Inr exactos_dos"
  by (simp add: matcheo_multifacturas_misma_familia_mismo_dia_caja_def claves_resultados_def
        clave_match_def clave_banco_def exactos_dos_def registro_exacto_def)

lemma dos_cuatro_pasadas:
  "cuatro_pasadas float_exacto P ascii_db fam_ejemplo dos_iguales [credito 5 ''CARLOS RUIZ'' 300]
   = Inr exactos_dos"
  by (simp add: cuatro_pasadas_def dos_pass1 dos_pass2 dos_pass3 dos_pass4)

lemma dos_claves: "map (clave_match ascii_db) exactos_dos =
    [(Some (dia 5), cp ''CARLOS RUIZ'', 300), (Some (dia 5), cp ''CARLOS RUIZ'', 300)]"
  by (simp add: exactos_dos_def clave_match_def clave_op_def registro_exacto_def texto_eval)

lemma dos_facturas: "map m_Factura exactos_dos = [Some (cp ''A''), Some (cp ''B'')]"
  by (simp add: exactos_dos_def registro_exacto_def)

section \<open>Pass 3: the search for an invoice\<close>






lemma factura_a_mediodia_simps [simp]:
  "v_Fecha (factura_a_mediodia d n c m) = Some (dia d + 43200000000000)"
  "v_Nombre_Cliente (factura_a_mediodia d n c m) = Some (cp c)"
  "v_Monto (factura_a_mediodia d n c m) = Some m"
  "v_Factura (factura_a_mediodia d n c m) = Some (cp n)"
  by (simp_all add: factura_a_mediodia_def)





section \<open>Claims\<close>

text \<open>
  C3 (amended). For a registry none of whose codes is one of the two sentinel texts,
  \<open>_obtener_familia_por_persona\<close> returns 'No identificada' exactly when the name is empty or
  absent; otherwise it returns the code of the first registry row (in row order) that has a person
  column (a column whose lower-cased name contains 'persona') holding a slot whose normalised token
  set is not empty and equals, contains or is contained in the query's normalised token set; and
  it returns 'No encontrada' exactly when the name is not empty and no row has such a slot.
\<close>

theorem resolver_first_match:
  assumes sent: "\<forall>f \<in> set (filas fam). Codigo f \<noteq> NO_IDENTIFICADA \<and> Codigo f \<noteq> NO_ENCONTRADA"
  shows "(obtener_familia_por_persona U fam nombre = NO_IDENTIFICADA \<longleftrightarrow> nombre = None \<or> nombre = Some []) \<and>
         (obtener_familia_por_persona U fam nombre = NO_ENCONTRADA \<longleftrightarrow>
            nombre \<noteq> None \<and> nombre \<noteq> Some [] \<and>
            (\<forall>f \<in> set (filas fam). \<not> coincide U fam (normalize_to_token_set U (de_celda nombre)) f)) \<and>
         (\<forall>i < length (filas fam).
            nombre \<noteq> None \<and> nombre \<noteq> Some [] \<and>
            coincide U fam (normalize_to_token_set U (de_celda nombre)) (filas fam ! i) \<and>
            (\<forall>j < i. \<not> coincide U fam (normalize_to_token_set U (de_celda nombre)) (filas fam ! j)) \<longrightarrow>
            obtener_familia_por_persona U fam nombre = Codigo (filas fam ! i))"
proof (cases "nombre = None \<or> nombre = Some []")
  case True
  then have "obtener_familia_por_persona U fam nombre = NO_IDENTIFICADA"
    by (rule resolver_empty)
  with True sentinels_differ show ?thesis by auto
next
  case False
  let ?q = "normalize_to_token_set U (de_celda nombre)"
  let ?cols = "columnas_persona U fam"
  let ?fs = "filas fam"
  have r: "obtener_familia_por_persona U fam nombre = revisar_filas U ?q ?cols ?fs"
    using False by (simp add: resolver_nonempty)
  have co: "revisar_columnas U ?q f ?cols \<longleftrightarrow> coincide U fam ?q f" for f
    by (rule revisar_columnas_coincide)
  have first: "revisar_filas U ?q ?cols ?fs = Codigo (?fs ! i)"
    if "i < length ?fs" "coincide U fam ?q (?fs ! i)" "\<forall>j < i. \<not> coincide U fam ?q (?fs ! j)" for i
    using that by (intro revisar_filas_first) (simp_all add: co)
  from revisar_filas_cases [of U ?q ?cols ?fs]
  consider (none) "revisar_filas U ?q ?cols ?fs = NO_ENCONTRADA" "\<forall>f \<in> set ?fs. \<not> coincide U fam ?q f"
    | (some) i where "i < length ?fs" "coincide U fam ?q (?fs ! i)"
        "revisar_filas U ?q ?cols ?fs = Codigo (?fs ! i)"
    unfolding co by blast
  then have ab: "revisar_filas U ?q ?cols ?fs \<noteq> NO_IDENTIFICADA \<and>
      (revisar_filas U ?q ?cols ?fs = NO_ENCONTRADA \<longleftrightarrow> (\<forall>f \<in> set ?fs. \<not> coincide U fam ?q f))"
  proof cases
    case none
    then show ?thesis using sentinels_differ by simp
  next
    case some
    have "?fs ! i \<in> set ?fs" using some(1) by simp
    with sent have "Codigo (?fs ! i) \<noteq> NO_IDENTIFICADA" "Codigo (?fs ! i) \<noteq> NO_ENCONTRADA"
      by simp_all
    moreover have "\<not> (\<forall>f \<in> set ?fs. \<not> coincide U fam ?q f)"
      using some(2) \<open>?fs ! i \<in> set ?fs\<close> by blast
    ultimately show ?thesis using some(3) by simp
  qed
  have c1: "obtener_familia_por_persona U fam nombre = NO_IDENTIFICADA \<longleftrightarrow> nombre = None \<or> nombre = Some []"
    using False ab r by simp
  have c2: "obtener_familia_por_persona U fam nombre = NO_ENCONTRADA \<longleftrightarrow>
            nombre \<noteq> None \<and> nombre \<noteq> Some [] \<and> (\<forall>f \<in> set ?fs. \<not> coincide U fam ?q f)"
    using False ab r by simp
  have c3: "\<forall>i < length ?fs. nombre \<noteq> None \<and> nombre \<noteq> Some [] \<and> coincide U fam ?q (?fs ! i) \<and>
            (\<forall>j < i. \<not> coincide U fam ?q (?fs ! j)) \<longrightarrow>
            obtener_familia_por_persona U fam nombre = Codigo (?fs ! i)"
    using first r by simp
  from c1 c2 c3 show ?thesis by (intro conjI)
qed

theorem resolver_first_match_witness:
  "list_all (\<lambda>f. Codigo f \<noteq> NO_IDENTIFICADA \<and> Codigo f \<noteq> NO_ENCONTRADA) (filas fam_ejemplo) \<and>
   coincide ascii_db fam_ejemplo (normalize_to_token_set ascii_db (Str (cp ''PEREZ JUAN''))) (filas fam_ejemplo ! 1) \<and>
   \<not> coincide ascii_db fam_ejemplo (normalize_to_token_set ascii_db (Str (cp ''PEREZ JUAN''))) (filas fam_ejemplo ! 0) \<and>
   obtener_familia_por_persona ascii_db fam_ejemplo (Some (cp ''PEREZ JUAN'')) = cp ''F1'' \<and>
   obtener_familia_por_persona ascii_db fam_ejemplo (Some []) = NO_IDENTIFICADA \<and>
   obtener_familia_por_persona ascii_db fam_ejemplo (Some (cp ''NADIE EXISTE'')) = NO_ENCONTRADA"
proof -
  have sent: "\<forall>f \<in> set (filas fam_ejemplo). Codigo f \<noteq> NO_IDENTIFICADA \<and> Codigo f \<noteq> NO_ENCONTRADA"
    by (simp add: fam_ejemplo_def NO_IDENTIFICADA_def NO_ENCONTRADA_def cp_def)
  have c1: "coincide ascii_db fam_ejemplo (normalize_to_token_set ascii_db (Str (cp ''PEREZ JUAN''))) (filas fam_ejemplo ! 1)"
    by (simp add: coincide_def fam_ejemplo_def casa_iff normalize_palabras texto_eval)
  have c0: "\<not> coincide ascii_db fam_ejemplo (normalize_to_token_set ascii_db (Str (cp ''PEREZ JUAN''))) (filas fam_ejemplo ! 0)"
    by (simp add: coincide_def fam_ejemplo_def casa_iff normalize_palabras texto_eval)
  have n: "\<forall>f \<in> set (filas fam_ejemplo). \<not> coincide ascii_db fam_ejemplo (normalize_to_token_set ascii_db (Str (cp ''NADIE EXISTE''))) f"
    by (simp add: coincide_def fam_ejemplo_def casa_iff normalize_palabras texto_eval)
  have len: "1 < length (filas fam_ejemplo)" by (simp add: fam_ejemplo_def)
  have ne: "Some (cp ''PEREZ JUAN'') \<noteq> None \<and> Some (cp ''PEREZ JUAN'') \<noteq> Some []" "Some (cp ''NADIE EXISTE'') \<noteq> None \<and> Some (cp ''NADIE EXISTE'') \<noteq> Some []"
    by (simp_all add: cp_def)
  have r1: "obtener_familia_por_persona ascii_db fam_ejemplo (Some (cp ''PEREZ JUAN'')) = Codigo (filas fam_ejemplo ! 1)"
    using resolver_first_match [OF sent, of ascii_db "Some (cp ''PEREZ JUAN'')"] len c1 c0 ne(1)
    by (simp add: de_celda_def)
  have r2: "obtener_familia_por_persona ascii_db fam_ejemplo (Some []) = NO_IDENTIFICADA"
    using resolver_first_match [OF sent, of ascii_db "Some []"] by simp
  have r3: "obtener_familia_por_persona ascii_db fam_ejemplo (Some (cp ''NADIE EXISTE'')) = NO_ENCONTRADA"
    using resolver_first_match [OF sent, of ascii_db "Some (cp ''NADIE EXISTE'')"] n ne(2)
    by (simp add: de_celda_def)
  from r1 have r1': "obtener_familia_por_persona ascii_db fam_ejemplo (Some (cp ''PEREZ JUAN'')) = cp ''F1''"
    by (simp add: fam_ejemplo_def)
  from sent have sent': "list_all (\<lambda>f. Codigo f \<noteq> NO_IDENTIFICADA \<and> Codigo f \<noteq> NO_ENCONTRADA) (filas fam_ejemplo)"
    by (simp add: list_all_iff)
  from sent' c1 c0 r1' r2 r3 show ?thesis by (intro conjI)
qed

text \<open>
  C3 as stated fails: a slot holding only punctuation has the empty token set, which is contained
  in every query's token set, but the resolver skips it. With household F1 holding "--" and
  household F2 holding "JUAN", the query "JUAN" resolves to F2, not to the first row F1.
\<close>

theorem resolver_empty_slot_counterexample:
  "obtener_familia_por_persona ascii_db fam_guiones (Some (cp ''JUAN'')) = cp ''F2'' \<and>
   resolver_spec ascii_db fam_guiones (Some (cp ''JUAN'')) = cp ''F1''"
  by (simp add: resolver_nonempty revisar_columnas_coincide resolver_spec_def coincide_def coincide_spec_def
        fam_guiones_def de_celda_def casa_iff normalize_palabras texto_eval)

text \<open>
  C9 (amended). \<open>_normalize_to_token_set\<close> returns equal token sets for two non-empty names
  that differ only in case (they have the same upper-casing), only in accents (they are the same
  once upper-cased, stripped, decomposed and freed of combining marks), or only in what separates
  their words, punctuation or blanks (that text has the same maximal runs of A-Z and 0-9). It
  returns the empty set exactly when the input is absent, is the empty text, or has no character
  that is in A-Z or 0-9 after upper-casing and accent removal.
\<close>

theorem normalize_equal_tokens:
  "(a \<noteq> [] \<and> b \<noteq> [] \<and> py_upper U a = py_upper U b \<longrightarrow>
       normalize_to_token_set U (Str a) = normalize_to_token_set U (Str b)) \<and>
   (a \<noteq> [] \<and> b \<noteq> [] \<and> plegado U a = plegado U b \<longrightarrow>
       normalize_to_token_set U (Str a) = normalize_to_token_set U (Str b)) \<and>
   (a \<noteq> [] \<and> b \<noteq> [] \<and> palabras (plegado U a) = palabras (plegado U b) \<longrightarrow>
       normalize_to_token_set U (Str a) = normalize_to_token_set U (Str b)) \<and>
   (normalize_to_token_set U x = {} \<longleftrightarrow>
       x = NaN \<or> x = Str [] \<or> palabras (plegado U (py_str x)) = [])"
proof (intro conjI impI)
  show "normalize_to_token_set U x = {} \<longleftrightarrow> x = NaN \<or> x = Str [] \<or> palabras (plegado U (py_str x)) = []"
  proof (cases "x = NaN \<or> x = Str []")
    case True
    then show ?thesis by (auto simp: normalize_to_token_set_def)
  next
    case False
    then show ?thesis by (simp add: normalize_palabras)
  qed
qed (simp_all add: normalize_palabras plegado_def)

theorem normalize_equal_tokens_witness:
  "normalize_to_token_set demo_db (Str (cp ''juan'')) = normalize_to_token_set demo_db (Str (cp ''JUAN'')) \<and>
   normalize_to_token_set demo_db (Str [80, 233, 114, 101, 122]) = normalize_to_token_set demo_db (Str (cp ''PEREZ'')) \<and>
   normalize_to_token_set demo_db (Str (cp ''PEREZ,JUAN'')) = normalize_to_token_set demo_db (Str (cp ''PEREZ  JUAN'')) \<and>
   normalize_to_token_set demo_db (Str (cp ''--'')) = {}"
proof -
  have 1: "cp ''juan'' \<noteq> [] \<and> cp ''JUAN'' \<noteq> [] \<and> py_upper demo_db (cp ''juan'') = py_upper demo_db (cp ''JUAN'')"
    by (simp add: texto_eval)
  have 2: "[80, 233, 114, 101, 122] \<noteq> [] \<and> cp ''PEREZ'' \<noteq> [] \<and>
           plegado demo_db [80, 233, 114, 101, 122] = plegado demo_db (cp ''PEREZ'')"
    by (simp add: texto_eval)
  have 3: "cp ''PEREZ,JUAN'' \<noteq> [] \<and> cp ''PEREZ  JUAN'' \<noteq> [] \<and>
           palabras (plegado demo_db (cp ''PEREZ,JUAN'')) = palabras (plegado demo_db (cp ''PEREZ  JUAN''))"
    by (simp add: texto_eval)
  have 4: "palabras (plegado demo_db (py_str (Str (cp ''--'')))) = []"
    by (simp add: texto_eval)
  from 1 have a: "normalize_to_token_set demo_db (Str (cp ''juan'')) = normalize_to_token_set demo_db (Str (cp ''JUAN''))"
    using normalize_equal_tokens [of "cp ''juan''" "cp ''JUAN''" demo_db NaN] by blast
  from 2 have b: "normalize_to_token_set demo_db (Str [80, 233, 114, 101, 122]) = normalize_to_token_set demo_db (Str (cp ''PEREZ''))"
    using normalize_equal_tokens [of "[80, 233, 114, 101, 122]" "cp ''PEREZ''" demo_db NaN] by blast
  from 3 have c: "normalize_to_token_set demo_db (Str (cp ''PEREZ,JUAN'')) = normalize_to_token_set demo_db (Str (cp ''PEREZ  JUAN''))"
    using normalize_equal_tokens [of "cp ''PEREZ,JUAN''" "cp ''PEREZ  JUAN''" demo_db NaN] by blast
  from 4 have d: "normalize_to_token_set demo_db (Str (cp ''--'')) = {}"
    using normalize_equal_tokens [of "[]" "[]" demo_db "Str (cp ''--'')"] by blast
  from a b c d show ?thesis by (intro conjI)
qed

text \<open>
  C9 as stated fails in its second half: the text "-" is neither empty nor absent, and its token
  set is empty.
\<close>

theorem normalize_empty_counterexample:
  "normalize_to_token_set ascii_db (Str (cp ''-'')) = {} \<and> Str (cp ''-'') \<noteq> NaN \<and> Str (cp ''-'') \<noteq> Str []"
  by (simp add: normalize_palabras texto_eval)




text \<open>
  C8 fails on the code. The claim is that in pass 2 the variable \<open>mask\<close> read when selecting
  \<open>coincidencias\<close> has been assigned for every group of two or more invoices. The code assigns it
  only inside \<open>if len(candidatos_banco) > 0\<close>: with two invoices of one household, day and till
  (300 and 400) and no bank credit of 700 on that day, the first group reads \<open>mask\<close> unassigned
  and the pass raises \<open>UnboundLocalError\<close> (a \<open>NameError\<close>).
\<close>

theorem pass2_mask_unassigned:
  "matcheo_multifacturas_misma_familia_dia_caja float_exacto ascii_db fam_ejemplo
     [factura ''A'' ''JUAN PEREZ'' 300, factura ''B'' ''JUAN PEREZ'' 400]
     [credito 5 ''JUAN PEREZ'' 999] [] = Inl NameError"
  by (simp add: pass2_eval tablas_eval familias_eval)

text \<open>
  C4 fails on the code. The claim is that no invoice of a group pass 2 matches was referenced by
  a record that existed before. Pass 2 collects the referenced numbers stripped of blanks
  (\<open>x.strip()\<close>) and compares them with the invoice numbers as they are written: an invoice
  whose number ends in a blank, "A ", matched exactly by pass 1, is not recognised and is grouped
  again. With the invoices "A " (300) and "B" (400) of one household, day and till and credits
  of 300 and 700, pass 1 links "A " to the credit of 300 and pass 2 then emits a record
  MULTI_FACTURAS "A ,B" for the credit of 700.
\<close>

theorem pass2_regroups_matched_invoice:
  "matcheo_exacto ascii_db fam_ejemplo ventas_espacio banco_espacio = [exacto_espacio] \<and>
   m_Factura exacto_espacio = Some (cp ''A '') \<and>
   matcheo_multifacturas_misma_familia_dia_caja float_exacto ascii_db fam_ejemplo ventas_espacio banco_espacio
     [exacto_espacio] =
   Inr [exacto_espacio,
        \<lparr> Tipo_Match = cp ''MULTI_FACTURAS'', m_Factura = Some (cp ''A ,B''),
          Fecha_Banco = Some (dia 5), Nombre_Banco = cp ''JUAN PEREZ'', Monto_Banco = 700,
          Familia = Some (cp ''F1''), Grupo_Familiar = None, Monto_Factura = Some 700,
          Cantidad_Facturas = Some 2 \<rparr>]"
  using espacio_pass1 espacio_factura espacio_pass2 by (intro conjI)

text \<open>
  C1 (amended). Passes 2 and 4 append at most one record per transaction identity key (date,
  upper-cased and stripped payer name, amount), and none whose key is the key of a record that
  existed when the pass started: when the pass returns, the keys of the records it appended are
  pairwise different and different from all earlier keys. (Pass 1 keeps no set of consumed keys
  and records every exact coincidence.)
\<close>

theorem keys_fresh_pass2_pass4:
  "(matcheo_multifacturas_misma_familia_dia_caja F U fam ventas banco resultados = Inr res_dos \<longrightarrow>
      (\<exists>nuevos. res_dos = resultados @ nuevos \<and> distinct (map (clave_match U) nuevos) \<and>
         set (map (clave_match U) nuevos) \<inter> claves_resultados U resultados = {})) \<and>
   (matcheo_multifacturas_misma_familia_mismo_dia_caja F P U fam ventas banco resultados = Inr res_cuatro \<longrightarrow>
      (\<exists>nuevos. res_cuatro = resultados @ nuevos \<and> distinct (map (clave_match U) nuevos) \<and>
         set (map (clave_match U) nuevos) \<inter> claves_resultados U resultados = {}))"
proof (intro conjI impI)
  let ?mo = "claves_resultados U resultados"
  assume "matcheo_multifacturas_misma_familia_dia_caja F U fam ventas banco resultados = Inr res_dos"
  then obtain msk' mo' mn' where
    run: "procesar_grupos F U fam (banco_disponible U resultados banco)
            (groupby U fam (ventas_validas_2 U fam resultados ventas)) (None, ?mo, []) = Inr (msk', mo', mn')"
    and res: "res_dos = resultados @ mn'"
    by (auto simp: matcheo_multifacturas_misma_familia_dia_caja_def split: sum.splits)
  have inv: "\<forall>m. (None :: bool list option) = Some m \<longrightarrow>
      (\<forall>b \<in> set (seleccionar m (banco_disponible U resultados banco)). clave_banco U b \<in> ?mo)"
    by simp
  from procesar_grupos_props [OF run inv] obtain ns where "mn' = [] @ ns"
    "distinct (map (clave_match U) ns)" "set (map (clave_match U) ns) \<inter> ?mo = {}" by blast
  with res show "\<exists>nuevos. res_dos = resultados @ nuevos \<and> distinct (map (clave_match U) nuevos) \<and>
         set (map (clave_match U) nuevos) \<inter> ?mo = {}" by auto
next
  let ?mo = "claves_resultados U resultados"
  assume "matcheo_multifacturas_misma_familia_mismo_dia_caja F P U fam ventas banco resultados = Inr res_cuatro"
  then obtain usado' mo' mn' where
    run: "procesar_operaciones_4 F P U fam (ventas_validas_4 ventas) banco ({}, ?mo, []) = Inr (usado', mo', mn')"
    and res: "res_cuatro = resultados @ mn'"
    by (auto simp: matcheo_multifacturas_misma_familia_mismo_dia_caja_def split: sum.splits)
  from procesar_operaciones_4_keys [OF run] obtain ns where "mn' = [] @ ns"
    "distinct (map (clave_match U) ns)" "set (map (clave_match U) ns) \<inter> ?mo = {}" by blast
  with res show "\<exists>nuevos. res_cuatro = resultados @ nuevos \<and> distinct (map (clave_match U) nuevos) \<and>
         set (map (clave_match U) nuevos) \<inter> ?mo = {}" by auto
qed

theorem keys_fresh_pass2_pass4_witness:
  "matcheo_multifacturas_misma_familia_dia_caja float_exacto ascii_db fam_ejemplo ventas_espacio
     banco_espacio [exacto_espacio] =
   Inr ([exacto_espacio] @
        [\<lparr> Tipo_Match = cp ''MULTI_FACTURAS'', m_Factura = Some (cp ''A ,B''),
           Fecha_Banco = Some (dia 5), Nombre_Banco = cp ''JUAN PEREZ'', Monto_Banco = 700,
           Familia = Some (cp ''F1''), Grupo_Familiar = None, Monto_Factura = Some 700,
           Cantidad_Facturas = Some 2 \<rparr>]) \<and>
   (\<exists>nuevos. [exacto_espacio] @
        [\<lparr> Tipo_Match = cp ''MULTI_FACTURAS'', m_Factura = Some (cp ''A ,B''),
           Fecha_Banco = Some (dia 5), Nombre_Banco = cp ''JUAN PEREZ'', Monto_Banco = 700,
           Familia = Some (cp ''F1''), Grupo_Familiar = None, Monto_Factura = Some 700,
           Cantidad_Facturas = Some 2 \<rparr>] = [exacto_espacio] @ nuevos \<and>
      distinct (map (clave_match ascii_db) nuevos) \<and>
      set (map (clave_match ascii_db) nuevos) \<inter> claves_resultados ascii_db [exacto_espacio] = {}) \<and>
   matcheo_multifacturas_misma_familia_mismo_dia_caja float_exacto pandas_simple ascii_db fam_ejemplo
     tres_facturas [credito 5 ''JUAN PEREZ'' 1000] [exacto_espacio] =
   Inr ([exacto_espacio] @
        [registro_familia_banco float_exacto ascii_db fam_ejemplo (credito 5 ''JUAN PEREZ'' 1000) pool_tres]) \<and>
   (\<exists>nuevos. [exacto_espacio] @
        [registro_familia_banco float_exacto ascii_db fam_ejemplo (credito 5 ''JUAN PEREZ'' 1000) pool_tres]
        = [exacto_espacio] @ nuevos \<and>
      distinct (map (clave_match ascii_db) nuevos) \<and>
      set (map (clave_match ascii_db) nuevos) \<inter> claves_resultados ascii_db [exacto_espacio] = {})"
proof -
  let ?m = "\<lparr> Tipo_Match = cp ''MULTI_FACTURAS'', m_Factura = Some (cp ''A ,B''),
           Fecha_Banco = Some (dia 5), Nombre_Banco = cp ''JUAN PEREZ'', Monto_Banco = 700,
           Familia = Some (cp ''F1''), Grupo_Familiar = None, Monto_Factura = Some 700,
           Cantidad_Facturas = Some 2 \<rparr>"
  let ?r = "registro_familia_banco float_exacto ascii_db fam_ejemplo (credito 5 ''JUAN PEREZ'' 1000) pool_tres"
  have e2: "matcheo_multifacturas_misma_familia_dia_caja float_exacto ascii_db fam_ejemplo ventas_espacio
     banco_espacio [exacto_espacio] = Inr ([exacto_espacio] @ [?m])"
    using espacio_pass2 by simp
  have e4: "matcheo_multifacturas_misma_familia_mismo_dia_caja float_exacto pandas_simple ascii_db fam_ejemplo
     tres_facturas [credito 5 ''JUAN PEREZ'' 1000] [exacto_espacio] = Inr ([exacto_espacio] @ [?r])"
    using pass4_1000_previo by simp
  note t = keys_fresh_pass2_pass4 [where F = float_exacto and U = ascii_db and fam = fam_ejemplo
      and ventas = ventas_espacio and banco = banco_espacio and resultados = "[exacto_espacio]"
      and res_dos = "[exacto_espacio] @ [?m]"]
  note u = keys_fresh_pass2_pass4 [where F = float_exacto and U = ascii_db and fam = fam_ejemplo
      and P = pandas_simple and ventas = tres_facturas and banco = "[credito 5 ''JUAN PEREZ'' 1000]"
      and resultados = "[exacto_espacio]" and res_cuatro = "[exacto_espacio] @ [?r]"]
  from t e2 have a: "\<exists>nuevos. [exacto_espacio] @ [?m] = [exacto_espacio] @ nuevos \<and>
      distinct (map (clave_match ascii_db) nuevos) \<and>
      set (map (clave_match ascii_db) nuevos) \<inter> claves_resultados ascii_db [exacto_espacio] = {}"
    by blast
  from u e4 have b: "\<exists>nuevos. [exacto_espacio] @ [?r] = [exacto_espacio] @ nuevos \<and>
      distinct (map (clave_match ascii_db) nuevos) \<and>
      set (map (clave_match ascii_db) nuevos) \<inter> claves_resultados ascii_db [exacto_espacio] = {}"
    by blast
  from e2 a e4 b show ?thesis by (intro conjI)
qed

text \<open>
  C1 as stated fails: pass 1 emits a record for every invoice and every bank row that coincide.
  With two invoices A and B of the same date, client and amount and one bank credit with that
  date, name and amount, the four passes return two records, both with the credit's identity
  key, whatever pandas does with the texts of dates and with equal sort keys.
\<close>

theorem key_twice_counterexample:
  "(\<forall>P. cuatro_pasadas float_exacto P ascii_db fam_ejemplo dos_iguales [credito 5 ''CARLOS RUIZ'' 300]
         = Inr exactos_dos) \<and>
   map m_Factura exactos_dos = [Some (cp ''A''), Some (cp ''B'')] \<and>
   map (clave_match ascii_db) exactos_dos =
     [(Some (dia 5), cp ''CARLOS RUIZ'', 300), (Some (dia 5), cp ''CARLOS RUIZ'', 300)]"
  using dos_cuatro_pasadas dos_facturas dos_claves by blast



text \<open>
  C2 fails on the code. The claim is that pass 4 marks the member invoices of the accepted
  combination as used. The code sets the flag on \<open>ventas_validas.loc[subset.index]\<close>, and
  \<open>subset.index\<close> holds positions in the sorted pool, whose index was reset, not the labels of
  the invoices. With invoices X, Y of household F0 (labels 0, 1) and C (300), D (400) of household
  F1 (labels 2, 3), the credit of 700 of day 5 is matched with D and C, which are positions 0
  and 1 of the pool: the flag is set on X and Y. C and D stay unused, and the credit of 700 of
  day 6 is matched with D and C again.
\<close>

theorem pass4_marks_wrong_rows:
  "matcheo_multifacturas_misma_familia_mismo_dia_caja float_exacto pandas_simple ascii_db fam_ejemplo
     cuatro_facturas dos_creditos [] =
   Inr [\<lparr> Tipo_Match = cp ''MULTI_FACTURAS_FAMILIA_BANCO_PRIMERO'', m_Factura = Some (cp ''D,C''),
          Fecha_Banco = Some (dia 5), Nombre_Banco = cp ''JUAN PEREZ'', Monto_Banco = 700,
          Familia = Some (cp ''F1''), Grupo_Familiar = None, Monto_Factura = Some 700,
          Cantidad_Facturas = Some 2 \<rparr>,
        \<lparr> Tipo_Match = cp ''MULTI_FACTURAS_FAMILIA_BANCO_PRIMERO'', m_Factura = Some (cp ''D,C''),
          Fecha_Banco = Some (dia 6), Nombre_Banco = cp ''JUAN PEREZ'', Monto_Banco = 700,
          Familia = Some (cp ''F1''), Grupo_Familiar = None, Monto_Factura = Some 700,
          Cantidad_Facturas = Some 2 \<rparr>]"
proof -
  have t: "cp ''D'' @ 44 # cp ''C'' = cp ''D,C''"
    by (simp add: cp_def)
  show ?thesis
    by (simp add: matcheo_multifacturas_misma_familia_mismo_dia_caja_def ventas_validas_4_def
        cuatro_facturas_def dos_creditos_def completa_def seleccionar_candidatos_def juan_F1 F1_ok
        codigo_juan codigo_ana candidatos_restringidos_def pandas_simple_def orden_candidatos_def
        diff_dias_def MAX_CANDIDATOS_def la_fecha_def monto_de_def days_def dia_def suma_subset_def
        TOL_def float_001_def float_exacto_def claves_resultados_def clave_banco_def clave_op_def
        registro_familia_banco_def str_celda_def t)
qed




end
